theory Spec2Isabelle
  imports Main
begin

section \<open>JavaScript values and string helpers\<close>

text \<open>
  The plugin is TypeScript; its transport payloads, response bodies and thrown values are
  typed \<open>any\<close>. Payloads are modelled by a small JSON datatype, numbers by integers
  (all numbers the code inspects are HTTP status codes, counters and millisecond readings),
  strings by HOL strings. An \<open>async\<close> method is modelled by the function from the state
  before the call to its settled result and the state after it; a rejected promise is the
  \<open>Inl\<close> of a sum. Console output is not modelled, nor are values that are computed for
  the console only (request identifiers, the mean response time of the repeated check).
\<close>

datatype json =
    JUndefined
  | JNull
  | JBool bool
  | JNum int
  | JStr string
  | JArr "json list"
  | JObj "(string \<times> json) list"

text \<open>JavaScript truthiness, as used by \<open>||\<close>, \<open>!\<close> and \<open>if\<close>.\<close>

fun truthy :: "json \<Rightarrow> bool" where
  "truthy JUndefined = False"
| "truthy JNull = False"
| "truthy (JBool b) = b"
| "truthy (JNum n) = (n \<noteq> 0)"
| "truthy (JStr s) = (s \<noteq> [])"
| "truthy (JArr xs) = True"
| "truthy (JObj kvs) = True"

text \<open>\<open>a || b\<close>\<close>

definition js_or :: "json \<Rightarrow> json \<Rightarrow> json" where
  "js_or a b = (if truthy a then a else b)"

text \<open>
  \<open>x?.p\<close> for the property names the code reads (\<open>detail\<close>, \<open>message\<close>, \<open>data\<close>,
  \<open>count\<close>): \<open>undefined\<close> on \<open>null\<close> and \<open>undefined\<close>, the stored value on an object
  that has the key, \<open>undefined\<close> otherwise (none of these names is a built-in property of
  a string, number, boolean or array).
\<close>

fun opt_prop :: "json \<Rightarrow> string \<Rightarrow> json" where
  "opt_prop (JObj kvs) p = (case map_of kvs p of Some v \<Rightarrow> v | None \<Rightarrow> JUndefined)"
| "opt_prop _ p = JUndefined"

text \<open>\<open>s.includes(sub)\<close>\<close>

definition startsWith :: "string \<Rightarrow> string \<Rightarrow> bool" where
  "startsWith s sub = (take (length sub) s = sub)"

fun includes_str :: "string \<Rightarrow> string \<Rightarrow> bool" where
  "includes_str [] sub = (sub = [])"
| "includes_str (c # cs) sub = (startsWith (c # cs) sub \<or> includes_str cs sub)"

text \<open>
  \<open>s.trim()\<close>: strips white space at both ends. Within the 8-bit characters of a HOL
  string the JavaScript white space and line terminators are TAB, LF, VT, FF, CR, SPACE
  and NBSP.
\<close>

definition is_ws :: "char \<Rightarrow> bool" where
  "is_ws c = (c \<in> set [CHR 0x09, CHR 0x0A, CHR 0x0B, CHR 0x0C, CHR 0x0D, CHR 0x20, CHR 0xA0])"

definition trim :: "string \<Rightarrow> string" where
  "trim s = rev (dropWhile is_ws (rev (dropWhile is_ws s)))"

text \<open>\<open>s.toUpperCase()\<close> on the ASCII letters.\<close>

definition upper_char :: "char \<Rightarrow> char" where
  "upper_char c =
     (case map_of (zip ''abcdefghijklmnopqrstuvwxyz'' ''ABCDEFGHIJKLMNOPQRSTUVWXYZ'') c of
        Some u \<Rightarrow> u | None \<Rightarrow> c)"

definition toUpperCase :: "string \<Rightarrow> string" where
  "toUpperCase s = map upper_char s"

text \<open>Decimal rendering of a number inside a template literal.\<close>

fun digits :: "nat \<Rightarrow> string" where
  "digits n = (if n < 10 then [char_of (48 + n)] else digits (n div 10) @ [char_of (48 + n mod 10)])"

definition show_int :: "int \<Rightarrow> string" where
  "show_int i = (if i < 0 then CHR ''-'' # digits (nat (- i)) else digits (nat i))"

section \<open>Thrown values and the wrapper's records\<close>

text \<open>
  The response attached to a transport failure (\<open>error.response\<close>): its status and body.
\<close>

record http_response =
  resp_status :: int
  resp_data :: json

text \<open>
  A value raised by the transport or by \<open>fetch\<close>, with the properties the code inspects:
  whether it is an \<open>Error\<close> instance, \<open>name\<close>, \<open>message\<close>, \<open>code\<close>, \<open>response\<close>.
  \<open>None\<close> is an absent (undefined) property.
\<close>

record js_error =
  err_instance :: bool
  err_name :: string
  err_message :: "string option"
  err_code :: "string option"
  err_response :: "http_response option"

text \<open>\<open>new Error(msg)\<close>\<close>

definition new_Error :: "string \<Rightarrow> js_error" where
  "new_Error msg = \<lparr>err_instance = True, err_name = ''Error'', err_message = Some msg,
     err_code = None, err_response = None\<rparr>"

text \<open>
  The \<open>TypeError\<close> raised by reading property \<open>p\<close> of \<open>undefined\<close> or \<open>null\<close> (wording of V8).
\<close>

definition type_error :: "string \<Rightarrow> string \<Rightarrow> js_error" where
  "type_error what p = \<lparr>err_instance = True, err_name = ''TypeError'',
     err_message = Some (''Cannot read properties of '' @ what @ '' (reading '' @ [CHR 0x27] @ p @ [CHR 0x27] @ '')''),
     err_code = None, err_response = None\<rparr>"

text \<open>\<open>x.p\<close>: raises on \<open>undefined\<close> and \<open>null\<close>, otherwise as \<open>x?.p\<close>.\<close>

fun get_prop :: "json \<Rightarrow> string \<Rightarrow> js_error + json" where
  "get_prop JUndefined p = Inl (type_error ''undefined'' p)"
| "get_prop JNull p = Inl (type_error ''null'' p)"
| "get_prop v p = Inr (opt_prop v p)"

text \<open>\<open>details\<close> of a classified error: \<open>{responseData, responseTime}\<close> or \<open>{responseTime}\<close>.\<close>

record error_details =
  det_responseData :: "json option"
  det_responseTime :: int

text \<open>interface \<open>ApiError\<close> (src/types/api.ts)\<close>

record ApiError =
  message :: string
  status :: "int option"
  code :: "string option"
  details :: "error_details option"

text \<open>interface \<open>ApiResponse\<close> (src/types/api.ts); \<open>timestamp\<close> is the clock reading.\<close>

record ApiResponse =
  data :: json
  r_status :: int
  responseTime :: int
  timestamp :: int

section \<open>The environment: clock, network and observable effects\<close>

text \<open>
  What a call does to the outside world is recorded as a trace of events: entering the
  wrapper's \<open>makeRequest\<close>, invoking a method of the host transport, issuing a
  \<open>fetch\<close>, and waiting on a timer.
\<close>

datatype event =
    Request string string
  | Dispatch string string json
  | Fetch string
  | Sleep int

text \<open>How a \<open>fetch\<close> settles: resolved with a response of some status, or rejected.\<close>

datatype fetch_outcome = Resolved int | Rejected js_error

text \<open>
  The environment supplies the successive readings of \<open>Date.now()\<close> / \<open>new Date()\<close>
  and the outcomes of the successive \<open>fetch\<close> calls; it counts how many of each were
  consumed and accumulates the trace.
\<close>

record env =
  clock :: "nat \<Rightarrow> int"
  reads :: nat
  fetch :: "nat \<Rightarrow> fetch_outcome"
  fetches :: nat
  trace :: "event list"

definition now :: "env \<Rightarrow> int \<times> env" where
  "now e = (clock e (reads e), e\<lparr>reads := Suc (reads e)\<rparr>)"

definition emit :: "event \<Rightarrow> env \<Rightarrow> env" where
  "emit ev e = e\<lparr>trace := trace e @ [ev]\<rparr>"

section \<open>Request wrapper (class ApiServiceWrapper)\<close>

text \<open>
  The host-supplied API Service Bridge: four methods, each settling with a raw response
  or raising. \<open>get\<close> and \<open>delete\<close> take (path, options); \<open>post\<close> and \<open>put\<close> take
  (path, data, options).
\<close>

record transport =
  bridge_get :: "string \<Rightarrow> json \<Rightarrow> js_error + json"
  bridge_post :: "string \<Rightarrow> json \<Rightarrow> json \<Rightarrow> js_error + json"
  bridge_put :: "string \<Rightarrow> json \<Rightarrow> json \<Rightarrow> js_error + json"
  bridge_delete :: "string \<Rightarrow> json \<Rightarrow> js_error + json"

text \<open>The field \<open>apiService: any = null\<close> and the argument of \<open>setServiceBridge\<close>.\<close>

datatype service = Null | Undefined | Service transport

record ApiServiceWrapper =
  apiService :: service
  isConnected :: bool
  requestCount :: nat

text \<open>The wrapper as constructed: field initialisers of the class.\<close>

definition new_ApiServiceWrapper :: ApiServiceWrapper where
  "new_ApiServiceWrapper = \<lparr>apiService = Null, isConnected = False, requestCount = 0\<rparr>"

definition setServiceBridge :: "service \<Rightarrow> ApiServiceWrapper \<Rightarrow> ApiServiceWrapper" where
  "setServiceBridge svc w = w\<lparr>apiService := svc, isConnected := True\<rparr>"

text \<open>\<open>svc !== null\<close>\<close>

fun not_null :: "service \<Rightarrow> bool" where
  "not_null Null = False"
| "not_null Undefined = True"
| "not_null (Service t) = True"

definition isServiceConnected :: "ApiServiceWrapper \<Rightarrow> bool" where
  "isServiceConnected w = (isConnected w \<and> not_null (apiService w))"

definition getStats :: "ApiServiceWrapper \<Rightarrow> nat \<times> bool" where
  "getStats w = (requestCount w, isConnected w)"

text \<open>\<open>createApiError\<close>: \<open>message: error?.message || 'An unknown error occurred'\<close>\<close>

definition createApiError ::
  "js_error \<Rightarrow> int option \<Rightarrow> string option \<Rightarrow> error_details option \<Rightarrow> ApiError" where
  "createApiError error st cd det =
     \<lparr>message = (case err_message error of
                   Some m \<Rightarrow> if m \<noteq> [] then m else ''An unknown error occurred''
                 | None \<Rightarrow> ''An unknown error occurred''),
      status = st, code = cd, details = det\<rparr>"

text \<open>
  \<open>getErrorMessage\<close>. \<open>serverMessage\<close> is \<open>responseData?.detail || responseData?.message\<close>,
  of type \<open>any\<close>, so the result is a JavaScript value: the fixed text, or whatever truthy
  value the body carries.
\<close>

definition getErrorMessage :: "int \<Rightarrow> json \<Rightarrow> json" where
  "getErrorMessage st responseData =
     (let serverMessage = js_or (opt_prop responseData ''detail'') (opt_prop responseData ''message'') in
      if st = 400 then js_or serverMessage (JStr ''Bad request - please check your input'')
      else if st = 401 then JStr ''Authentication required - please log in''
      else if st = 403 then
        JStr (''Access denied - you don'' @ [CHR 0x27] @ ''t have permission for this action'')
      else if st = 404 then js_or serverMessage (JStr ''Resource not found'')
      else if st = 422 then js_or serverMessage (JStr ''Validation error - please check your input'')
      else if st = 500 then JStr ''Server error - please try again later''
      else if st = 503 then JStr ''Service unavailable - please try again later''
      else js_or serverMessage (JStr (''HTTP '' @ show_int st @ '' error occurred'')))"

definition getErrorCode :: "int \<Rightarrow> string" where
  "getErrorCode st =
     (if st = 400 then ''BAD_REQUEST''
      else if st = 401 then ''UNAUTHORIZED''
      else if st = 403 then ''FORBIDDEN''
      else if st = 404 then ''NOT_FOUND''
      else if st = 422 then ''VALIDATION_ERROR''
      else if st = 500 then ''INTERNAL_SERVER_ERROR''
      else if st = 503 then ''SERVICE_UNAVAILABLE''
      else ''HTTP_ERROR'')"

text \<open>
  \<open>handleApiError\<close>. In the HTTP branch the source binds
  \<open>const message = this.getErrorMessage(status, error.response.data)\<close> and does not use
  it: the error it builds takes its message from \<open>createApiError\<close>, that is from the
  raised error itself. The binding is kept here as it is written.
\<close>

definition handleApiError :: "js_error \<Rightarrow> int \<Rightarrow> ApiError" where
  "handleApiError error rt =
     (case err_response error of
        Some response \<Rightarrow>
          (let st = resp_status response;
               msg = getErrorMessage st (resp_data response)
           in createApiError error (Some st) (Some (getErrorCode st))
                (Some \<lparr>det_responseData = Some (resp_data response), det_responseTime = rt\<rparr>))
      | None \<Rightarrow>
          if err_code error = Some ''ERR_NETWORK'' then
            createApiError error (Some 0) (Some ''NETWORK_ERROR'')
              (Some \<lparr>det_responseData = None, det_responseTime = rt\<rparr>)
          else if (case err_message error of Some m \<Rightarrow> includes_str m ''timeout'' | None \<Rightarrow> False) then
            createApiError error (Some 408) (Some ''TIMEOUT'')
              (Some \<lparr>det_responseData = None, det_responseTime = rt\<rparr>)
          else
            createApiError error (Some 500) (Some ''UNKNOWN_ERROR'')
              (Some \<lparr>det_responseData = None, det_responseTime = rt\<rparr>))"

text \<open>
  \<open>this.apiService.m(...)\<close>: on a transport object the method runs (one \<open>Dispatch\<close>
  event); on \<open>undefined\<close> or \<open>null\<close> reading the method raises a \<open>TypeError\<close>.
\<close>

definition invoke ::
  "service \<Rightarrow> string \<Rightarrow> string \<Rightarrow> json \<Rightarrow> (transport \<Rightarrow> js_error + json) \<Rightarrow> env \<Rightarrow> (js_error + json) \<times> env" where
  "invoke svc m path payload f e =
     (case svc of
        Service t \<Rightarrow> (f t, emit (Dispatch m path payload) e)
      | Undefined \<Rightarrow> (Inl (type_error ''undefined'' m), e)
      | Null \<Rightarrow> (Inl (type_error ''null'' m), e))"

text \<open>The \<open>switch (method.toUpperCase())\<close> of \<open>makeRequest\<close>.\<close>

definition dispatch ::
  "service \<Rightarrow> string \<Rightarrow> string \<Rightarrow> json \<Rightarrow> json \<Rightarrow> env \<Rightarrow> (js_error + json) \<times> env" where
  "dispatch svc method path payload options e =
     (let m = toUpperCase method in
      if m = ''GET'' then invoke svc ''get'' path JUndefined (\<lambda>t. bridge_get t path options) e
      else if m = ''POST'' then invoke svc ''post'' path payload (\<lambda>t. bridge_post t path payload options) e
      else if m = ''PUT'' then invoke svc ''put'' path payload (\<lambda>t. bridge_put t path payload options) e
      else if m = ''DELETE'' then invoke svc ''delete'' path JUndefined (\<lambda>t. bridge_delete t path options) e
      else (Inl (new_Error (''Unsupported HTTP method: '' @ method)), e))"

text \<open>
  \<open>makeRequest\<close>: the result is \<open>Inl\<close> the thrown \<open>ApiError\<close> or \<open>Inr\<close> the returned
  \<open>ApiResponse\<close>, with the updated wrapper and environment.
\<close>

definition makeRequest ::
  "string \<Rightarrow> string \<Rightarrow> json \<Rightarrow> json \<Rightarrow> ApiServiceWrapper \<Rightarrow> env \<Rightarrow>
     (ApiError + ApiResponse) \<times> ApiServiceWrapper \<times> env" where
  "makeRequest method path payload options w e0 =
     (let e = emit (Request method path) e0 in
      if \<not> isServiceConnected w then
        (Inl (createApiError (new_Error ''API Service not connected'') (Some 503)
                (Some ''SERVICE_NOT_CONNECTED'') None), w, e)
      else
        (let w1 = w\<lparr>requestCount := requestCount w + 1\<rparr>;
             (startTime, e1) = now e;
             (r, e2) = dispatch (apiService w1) method path payload options e1;
             (endTime, e3) = now e2
         in case r of
              Inr response \<Rightarrow>
                (let (ts, e4) = now e3 in
                 (Inr \<lparr>data = response, r_status = 200, responseTime = endTime - startTime,
                        timestamp = ts\<rparr>, w1, e4))
            | Inl error \<Rightarrow> (Inl (handleApiError error (endTime - startTime)), w1, e3)))"

definition get_req :: "string \<Rightarrow> json \<Rightarrow> ApiServiceWrapper \<Rightarrow> env \<Rightarrow> (ApiError + ApiResponse) \<times> ApiServiceWrapper \<times> env" where
  "get_req path options = makeRequest ''GET'' path JUndefined options"

definition post_req :: "string \<Rightarrow> json \<Rightarrow> json \<Rightarrow> ApiServiceWrapper \<Rightarrow> env \<Rightarrow> (ApiError + ApiResponse) \<times> ApiServiceWrapper \<times> env" where
  "post_req path payload options = makeRequest ''POST'' path payload options"

definition put_req :: "string \<Rightarrow> json \<Rightarrow> json \<Rightarrow> ApiServiceWrapper \<Rightarrow> env \<Rightarrow> (ApiError + ApiResponse) \<times> ApiServiceWrapper \<times> env" where
  "put_req path payload options = makeRequest ''PUT'' path payload options"

definition delete_req :: "string \<Rightarrow> json \<Rightarrow> ApiServiceWrapper \<Rightarrow> env \<Rightarrow> (ApiError + ApiResponse) \<times> ApiServiceWrapper \<times> env" where
  "delete_req path options = makeRequest ''DELETE'' path JUndefined options"

section \<open>Operation envelopes (src/types/demo.ts)\<close>

record timing =
  startTime :: int
  endTime :: int
  duration :: int

record 'a OperationResult =
  success :: bool
  o_data :: "'a option"
  o_error :: "string option"
  timing :: "timing option"

text \<open>
  What a \<open>catch\<close> of the domain layer can receive: a JavaScript error value (its own
  \<open>new Error(...)\<close>, or a \<open>TypeError\<close> from a property read), or the \<open>ApiError\<close> raised
  by the wrapper, which \<open>createApiError\<close> builds as an object literal.
\<close>

datatype thrown = ThrownError js_error | ThrownApi ApiError

text \<open>
  \<open>error.message\<close> of an \<open>Error\<close> instance; without an own \<open>message\<close> the prototype's
  empty string is read.
\<close>

definition message_of :: "js_error \<Rightarrow> string" where
  "message_of x = (case err_message x of Some m \<Rightarrow> m | None \<Rightarrow> [])"

text \<open>
  \<open>error instanceof Error ? error.message : fallback\<close>. An object literal is not an
  \<open>Error\<close> instance.
\<close>

fun catch_message :: "thrown \<Rightarrow> string \<Rightarrow> string" where
  "catch_message (ThrownError x) fallback = (if err_instance x then message_of x else fallback)"
| "catch_message (ThrownApi a) fallback = fallback"

text \<open>The \<open>catch\<close> block shared by the six operations: reads the clock, builds the failure envelope.\<close>

definition failure :: "int \<Rightarrow> thrown \<Rightarrow> string \<Rightarrow> env \<Rightarrow> 'a OperationResult \<times> env" where
  "failure t0 err fallback e =
     (let (t1, e1) = now e in
      (\<lparr>success = False, o_data = None, o_error = Some (catch_message err fallback),
        timing = Some \<lparr>startTime = t0, endTime = t1, duration = t1 - t0\<rparr>\<rparr>, e1))"

definition succeeded :: "int \<Rightarrow> int \<Rightarrow> 'a option \<Rightarrow> 'a OperationResult" where
  "succeeded t0 t1 d =
     \<lparr>success = True, o_data = d, o_error = None,
      timing = Some \<lparr>startTime = t0, endTime = t1, duration = t1 - t0\<rparr>\<rparr>"

section \<open>Domain operations (class DemoApiService)\<close>

text \<open>
  \<open>CreateItemRequest | UpdateItemRequest\<close>: \<open>None\<close> is an absent (or undefined) field.
\<close>

record ItemRequest =
  name :: "string option"
  description :: "string option"

definition item_json :: "ItemRequest \<Rightarrow> json" where
  "item_json r =
     JObj ((case name r of Some n \<Rightarrow> [(''name'', JStr n)] | None \<Rightarrow> []) @
           (case description r of Some d \<Rightarrow> [(''description'', JStr d)] | None \<Rightarrow> []))"

definition baseUrl :: string where
  "baseUrl = ''/api/v1/demo''"

type_synonym 'a operation = "ApiServiceWrapper \<Rightarrow> env \<Rightarrow> 'a OperationResult \<times> ApiServiceWrapper \<times> env"

definition getItems :: "json operation" where
  "getItems w e =
     (let (t0, e1) = now e;
          (r, w1, e2) = get_req (baseUrl @ ''/items'') JUndefined w e1
      in case r of
           Inl apiError \<Rightarrow>
             (let (res, e3) = failure t0 (ThrownApi apiError) ''Failed to fetch items'' e2 in (res, w1, e3))
         | Inr response \<Rightarrow>
             (let (t1, e3) = now e2 in
              case get_prop (data response) ''count'' of
                Inl te \<Rightarrow>
                  (let (res, e4) = failure t0 (ThrownError te) ''Failed to fetch items'' e3 in (res, w1, e4))
              | Inr cnt \<Rightarrow> (succeeded t0 t1 (Some (opt_prop (data response) ''data'')), w1, e3)))"

definition createItem :: "ItemRequest \<Rightarrow> json operation" where
  "createItem itemData w e =
     (let (t0, e1) = now e in
      if (case name itemData of Some n \<Rightarrow> trim n = [] | None \<Rightarrow> True) then
        (let (res, e2) = failure t0 (ThrownError (new_Error ''Item name is required'')) ''Failed to create item'' e1
         in (res, w, e2))
      else
        (let (r, w1, e2) = post_req (baseUrl @ ''/items'') (item_json itemData) JUndefined w e1
         in case r of
              Inl apiError \<Rightarrow>
                (let (res, e3) = failure t0 (ThrownApi apiError) ''Failed to create item'' e2 in (res, w1, e3))
            | Inr response \<Rightarrow>
                (let (t1, e3) = now e2 in
                 case get_prop (data response) ''data'' of
                   Inl te \<Rightarrow>
                     (let (res, e4) = failure t0 (ThrownError te) ''Failed to create item'' e3 in (res, w1, e4))
                 | Inr item \<Rightarrow> (succeeded t0 t1 (Some item), w1, e3))))"

definition updateItem :: "string \<Rightarrow> ItemRequest \<Rightarrow> json operation" where
  "updateItem ident itemData w e =
     (let (t0, e1) = now e in
      if ident = [] then
        (let (res, e2) = failure t0 (ThrownError (new_Error ''Item ID is required'')) ''Failed to update item'' e1
         in (res, w, e2))
      else
        (let (r, w1, e2) = put_req (baseUrl @ ''/items/'' @ ident) (item_json itemData) JUndefined w e1
         in case r of
              Inl apiError \<Rightarrow>
                (let (res, e3) = failure t0 (ThrownApi apiError) ''Failed to update item'' e2 in (res, w1, e3))
            | Inr response \<Rightarrow>
                (let (t1, e3) = now e2 in
                 case get_prop (data response) ''data'' of
                   Inl te \<Rightarrow>
                     (let (res, e4) = failure t0 (ThrownError te) ''Failed to update item'' e3 in (res, w1, e4))
                 | Inr item \<Rightarrow> (succeeded t0 t1 (Some item), w1, e3))))"

definition deleteItem :: "string \<Rightarrow> json operation" where
  "deleteItem ident w e =
     (let (t0, e1) = now e in
      if ident = [] then
        (let (res, e2) = failure t0 (ThrownError (new_Error ''Item ID is required'')) ''Failed to delete item'' e1
         in (res, w, e2))
      else
        (let (r, w1, e2) = delete_req (baseUrl @ ''/items/'' @ ident) JUndefined w e1
         in case r of
              Inl apiError \<Rightarrow>
                (let (res, e3) = failure t0 (ThrownApi apiError) ''Failed to delete item'' e2 in (res, w1, e3))
            | Inr response \<Rightarrow>
                (let (t1, e3) = now e2 in (succeeded t0 t1 None, w1, e3))))"

definition getStatus :: "json operation" where
  "getStatus w e =
     (let (t0, e1) = now e;
          (r, w1, e2) = get_req (baseUrl @ ''/status'') JUndefined w e1
      in case r of
           Inl apiError \<Rightarrow>
             (let (res, e3) = failure t0 (ThrownApi apiError) ''Failed to get status'' e2 in (res, w1, e3))
         | Inr response \<Rightarrow>
             (let (t1, e3) = now e2 in (succeeded t0 t1 (Some (data response)), w1, e3)))"

definition healthCheck :: "json operation" where
  "healthCheck w e =
     (let (t0, e1) = now e;
          (r, w1, e2) = get_req (baseUrl @ ''/health'') JUndefined w e1
      in case r of
           Inl apiError \<Rightarrow>
             (let (res, e3) = failure t0 (ThrownApi apiError) ''Health check failed'' e2 in (res, w1, e3))
         | Inr response \<Rightarrow>
             (let (t1, e3) = now e2 in (succeeded t0 t1 (Some (data response)), w1, e3)))"

text \<open>\<open>validateItemData\<close>: the pair is (\<open>isValid\<close>, \<open>errors\<close>).\<close>

definition validateItemData :: "ItemRequest \<Rightarrow> bool \<times> string list" where
  "validateItemData d =
     (let errors0 = [];
          errors1 = (case name d of
                       Some n \<Rightarrow>
                         if trim n = [] then errors0 @ [''Name is required'']
                         else if length n > 100 then errors0 @ [''Name must be 100 characters or less'']
                         else errors0
                     | None \<Rightarrow> errors0);
          errors2 = (case description d of
                       Some ds \<Rightarrow>
                         if length ds > 500 then errors1 @ [''Description must be 500 characters or less'']
                         else errors1
                     | None \<Rightarrow> errors1)
      in (length errors2 = 0, errors2))"

section \<open>External reachability checker (class ExternalApiService)\<close>

datatype check_status = Online | Offline | ErrorStatus | Checking

text \<open>interface \<open>ApiCheckResult\<close> (src/types/api.ts); \<open>None\<close> is \<open>null\<close>.\<close>

record ApiCheckResult =
  url :: string
  c_status :: check_status
  c_responseTime :: "int option"
  c_timestamp :: int
  statusCode :: "int option"
  error :: "string option"

record ExternalApiService =
  checkCount :: nat

definition targetUrl :: string where
  "targetUrl = ''https://community.braindrive.ai/''"

definition new_ExternalApiService :: ExternalApiService where
  "new_ExternalApiService = \<lparr>checkCount = 0\<rparr>"

text \<open>
  The \<open>catch\<close> block of \<open>checkCommunityStatus\<close>: the status and error text for a
  rejected \<open>fetch\<close>. The 10-second timer aborts the request through the
  \<open>AbortController\<close>; the rejection then carries the name \<open>AbortError\<close>.
\<close>

definition classify_failure :: "js_error \<Rightarrow> check_status \<times> string" where
  "classify_failure err =
     (if err_instance err then
        (if err_name err = ''AbortError'' then (ErrorStatus, ''Request timeout after 10 seconds'')
         else if includes_str (message_of err) ''NetworkError'' \<or> includes_str (message_of err) ''Failed to fetch''
           then (Offline, ''Network error - site may be down or unreachable'')
         else (Offline, message_of err))
      else (Offline, ''Unknown error''))"

definition checkCommunityStatus ::
  "ExternalApiService \<Rightarrow> env \<Rightarrow> ApiCheckResult OperationResult \<times> ExternalApiService \<times> env" where
  "checkCommunityStatus s e =
     (let (t0, e1) = now e;
          s1 = s\<lparr>checkCount := checkCount s + 1\<rparr>;
          outcome = fetch e1 (fetches e1);
          e2 = emit (Fetch targetUrl) (e1\<lparr>fetches := Suc (fetches e1)\<rparr>);
          (t1, e3) = now e2
      in case outcome of
           Resolved st \<Rightarrow>
             (let (ts, e4) = now e3;
                  result = \<lparr>url = targetUrl, c_status = Online, c_responseTime = Some (t1 - t0),
                             c_timestamp = ts, statusCode = (if st \<noteq> 0 then Some st else None),
                             error = None\<rparr>
              in (succeeded t0 t1 (Some result), s1, e4))
         | Rejected err \<Rightarrow>
             (let (st, errorMessage) = classify_failure err;
                  (ts, e4) = now e3;
                  result = \<lparr>url = targetUrl, c_status = st, c_responseTime = Some (t1 - t0),
                             c_timestamp = ts, statusCode = None, error = Some errorMessage\<rparr>
              in (\<lparr>success = False, o_data = Some result, o_error = Some errorMessage,
                    timing = Some \<lparr>startTime = t0, endTime = t1, duration = t1 - t0\<rparr>\<rparr>, s1, e4)))"

text \<open>
  \<open>performMultipleChecks\<close>. The awaited call of the loop body is a parameter, so that the
  \<open>catch\<close> block of the method has a meaning: it receives whatever that call raises.
  The loop returns the value raised (if any) with the results pushed so far.
\<close>

type_synonym check_step =
  "ExternalApiService \<Rightarrow> env \<Rightarrow> (js_error + ApiCheckResult OperationResult) \<times> ExternalApiService \<times> env"

function checks_loop ::
  "check_step \<Rightarrow> int \<Rightarrow> int \<Rightarrow> int \<Rightarrow> ApiCheckResult list \<Rightarrow> ExternalApiService \<Rightarrow> env \<Rightarrow>
     (js_error option \<times> ApiCheckResult list) \<times> ExternalApiService \<times> env" where
  "checks_loop step i n intervalMs results s e =
     (if i < n then
        (let e1 = (if i > 0 then emit (Sleep intervalMs) e else e);
             (r, s1, e2) = step s e1
         in case r of
              Inl err \<Rightarrow> ((Some err, results), s1, e2)
            | Inr checkResult \<Rightarrow>
                checks_loop step (i + 1) n intervalMs
                  (case o_data checkResult of Some d \<Rightarrow> results @ [d] | None \<Rightarrow> results) s1 e2)
      else ((None, results), s, e))"
  by pat_completeness auto
termination
  by (relation "measure (\<lambda>(step, i, n, intervalMs, results, s, e). nat (n - i))") auto

text \<open>\<open>results.filter(r => r.status === 'online').length\<close>\<close>

definition onlineCount :: "ApiCheckResult list \<Rightarrow> nat" where
  "onlineCount results = length (filter (\<lambda>r. c_status r = Online) results)"

definition performMultipleChecksWith ::
  "check_step \<Rightarrow> int \<Rightarrow> int \<Rightarrow> ExternalApiService \<Rightarrow> env \<Rightarrow>
     ApiCheckResult list OperationResult \<times> ExternalApiService \<times> env" where
  "performMultipleChecksWith step n intervalMs s e =
     (let (t0, e1) = now e;
          ((raised, results), s1, e2) = checks_loop step 0 n intervalMs [] s e1;
          (t1, e3) = now e2
      in case raised of
           None \<Rightarrow> (succeeded t0 t1 (Some results), s1, e3)
         | Some err \<Rightarrow>
             (\<lparr>success = False, o_data = Some results,
               o_error = Some (if err_instance err then message_of err else ''Multiple checks failed''),
               timing = Some \<lparr>startTime = t0, endTime = t1, duration = t1 - t0\<rparr>\<rparr>, s1, e3))"

text \<open>The class's own step: \<open>await this.checkCommunityStatus()\<close>, which never raises.\<close>

definition own_step :: check_step where
  "own_step s e = (let (r, s1, e1) = checkCommunityStatus s e in (Inr r, s1, e1))"

definition performMultipleChecks ::
  "int \<Rightarrow> int \<Rightarrow> ExternalApiService \<Rightarrow> env \<Rightarrow>
     ApiCheckResult list OperationResult \<times> ExternalApiService \<times> env" where
  "performMultipleChecks n intervalMs = performMultipleChecksWith own_step n intervalMs"

section \<open>Concrete transports, errors and environments\<close>

text \<open>An environment whose clock advances 7 ms per reading and whose every \<open>fetch\<close> settles as \<open>f\<close> says.\<close>

definition env_of :: "(nat \<Rightarrow> fetch_outcome) \<Rightarrow> env" where
  "env_of f = \<lparr>clock = (\<lambda>k. 1000 + 7 * int k), reads = 0, fetch = f, fetches = 0, trace = []\<rparr>"

text \<open>The rejection of \<open>fetch\<close> on a network failure (wording of Chromium).\<close>

definition failed_to_fetch :: js_error where
  "failed_to_fetch = \<lparr>err_instance = True, err_name = ''TypeError'',
     err_message = Some ''Failed to fetch'', err_code = None, err_response = None\<rparr>"

definition abort_error :: js_error where
  "abort_error = \<lparr>err_instance = True, err_name = ''AbortError'',
     err_message = Some ''The user aborted a request.'', err_code = None, err_response = None\<rparr>"

definition env0 :: env where
  "env0 = env_of (\<lambda>k. Rejected failed_to_fetch)"

text \<open>The error an HTTP client raises for a response of status \<open>st\<close> with body \<open>body\<close>.\<close>

definition http_error :: "int \<Rightarrow> json \<Rightarrow> js_error" where
  "http_error st body = \<lparr>err_instance = True, err_name = ''AxiosError'',
     err_message = Some (''Request failed with status code '' @ show_int st),
     err_code = Some ''ERR_BAD_RESPONSE'',
     err_response = Some \<lparr>resp_status = st, resp_data = body\<rparr>\<rparr>"

text \<open>A transport on which every call raises \<open>err\<close>, and one on which every call resolves.\<close>

definition failing_transport :: "js_error \<Rightarrow> transport" where
  "failing_transport err = \<lparr>bridge_get = (\<lambda>p opts. Inl err), bridge_post = (\<lambda>p d opts. Inl err),
     bridge_put = (\<lambda>p d opts. Inl err), bridge_delete = (\<lambda>p opts. Inl err)\<rparr>"

definition echo_transport :: transport where
  "echo_transport = \<lparr>
     bridge_get = (\<lambda>p opts. Inr (JObj [(''data'', JArr []), (''count'', JNum 0), (''status'', JNum 404)])),
     bridge_post = (\<lambda>p d opts. Inr (JObj [(''data'', d)])),
     bridge_put = (\<lambda>p d opts. Inr (JObj [(''data'', d)])),
     bridge_delete = (\<lambda>p opts. Inr JNull)\<rparr>"

text \<open>
  Three failures as an HTTP client raises them: an HTTP 404 whose message also mentions a
  timeout and whose code is \<open>ERR_NETWORK\<close>; a network failure whose message mentions a
  timeout; a plain timeout.
\<close>

definition timeout_http_error :: js_error where
  "timeout_http_error = \<lparr>err_instance = True, err_name = ''AxiosError'',
     err_message = Some ''timeout of 5000ms exceeded'', err_code = Some ''ERR_NETWORK'',
     err_response = Some \<lparr>resp_status = 404, resp_data = JStr ''gateway timeout''\<rparr>\<rparr>"

definition network_error :: js_error where
  "network_error = \<lparr>err_instance = True, err_name = ''AxiosError'',
     err_message = Some ''Network Error after timeout'', err_code = Some ''ERR_NETWORK'',
     err_response = None\<rparr>"

definition timeout_error :: js_error where
  "timeout_error = \<lparr>err_instance = True, err_name = ''AxiosError'',
     err_message = Some ''timeout of 5000ms exceeded'', err_code = Some ''ECONNABORTED'',
     err_response = None\<rparr>"

text \<open>
  Environments in which every \<open>fetch\<close> resolves (opaque response, status 0), is
  aborted, or is rejected with a given error.
\<close>

definition env_online :: env where
  "env_online = env_of (\<lambda>k. Resolved 0)"

definition env_abort :: env where
  "env_abort = env_of (\<lambda>k. Rejected abort_error)"

definition env_boom :: env where
  "env_boom = env_of (\<lambda>k. Rejected (new_Error ''boom''))"

definition env_blank :: env where
  "env_blank = env_of (\<lambda>k. Rejected (new_Error ''''))"

text \<open>
  A step that behaves as the class's own for two checks and then raises, and the result
  a check yields in \<open>env0\<close> (up to its timestamp).
\<close>

definition flaky_step :: check_step where
  "flaky_step s e =
     (if checkCount s < 2 then own_step s e else (Inl (new_Error ''history store failed''), s, e))"

definition offline_result :: "int \<Rightarrow> ApiCheckResult" where
  "offline_result ts = \<lparr>url = ''https://community.braindrive.ai/'', c_status = Offline,
     c_responseTime = Some 7, c_timestamp = ts, statusCode = None,
     error = Some ''Network error - site may be down or unreachable''\<rparr>"

text \<open>
  Inputs of the domain operations: an item whose name is blank, a well-formed item; a
  wrapper connected to the resolving transport, and one connected to a transport on which
  every call fails with HTTP 404 and the body \<open>{detail: "Item not found"}\<close>.
\<close>

definition blank_item :: ItemRequest where
  "blank_item = \<lparr>name = Some ''   '', description = Some ''no name''\<rparr>"

definition widget :: ItemRequest where
  "widget = \<lparr>name = Some ''widget'', description = Some ''a small part''\<rparr>"

definition wrapper_echo :: ApiServiceWrapper where
  "wrapper_echo = setServiceBridge (Service echo_transport) new_ApiServiceWrapper"

definition not_found_body :: json where
  "not_found_body = JObj [(''detail'', JStr ''Item not found'')]"

definition wrapper_404 :: ApiServiceWrapper where
  "wrapper_404 = setServiceBridge (Service (failing_transport (http_error 404 not_found_body))) new_ApiServiceWrapper"

section \<open>The specification's status table\<close>

text \<open>
  The fixed status \<open>\<rightarrow>\<close> (code, message) table of section 4.1 of the specification, with
  the message texts of \<open>getErrorMessage\<close>; and the server-supplied text of a response
  body, \<open>detail\<close> before \<open>message\<close>.
\<close>

definition fixed_table :: "(int \<times> string \<times> string) list" where
  "fixed_table =
     [(400, ''BAD_REQUEST'', ''Bad request - please check your input''),
      (401, ''UNAUTHORIZED'', ''Authentication required - please log in''),
      (403, ''FORBIDDEN'', ''Access denied - you don'' @ [CHR 0x27] @ ''t have permission for this action''),
      (404, ''NOT_FOUND'', ''Resource not found''),
      (422, ''VALIDATION_ERROR'', ''Validation error - please check your input''),
      (500, ''INTERNAL_SERVER_ERROR'', ''Server error - please try again later''),
      (503, ''SERVICE_UNAVAILABLE'', ''Service unavailable - please try again later'')]"

definition serverMessage_of :: "json \<Rightarrow> json" where
  "serverMessage_of body = js_or (opt_prop body ''detail'') (opt_prop body ''message'')"

section \<open>The specification's check schedule\<close>

text \<open>
  The specification of the repeated check: one probe per check, a wait of the interval
  between consecutive checks and none before the first. \<open>later_checks k\<close> is the
  schedule of \<open>k\<close> checks that follow an earlier one.
\<close>

fun later_checks :: "nat \<Rightarrow> int \<Rightarrow> event list" where
  "later_checks 0 ms = []"
| "later_checks (Suc k) ms = Sleep ms # Fetch targetUrl # later_checks k ms"

fun check_schedule :: "nat \<Rightarrow> int \<Rightarrow> event list" where
  "check_schedule 0 ms = []"
| "check_schedule (Suc k) ms = Fetch targetUrl # later_checks k ms"

text \<open>The status a check reports for an outcome of its \<open>fetch\<close>.\<close>

fun status_of :: "fetch_outcome \<Rightarrow> check_status" where
  "status_of (Resolved st) = Online"
| "status_of (Rejected err) = fst (classify_failure err)"

section \<open>Evaluation helpers\<close>

lemma toUpperCase_GET: "toUpperCase ''GET'' = ''GET''"
  by (simp add: toUpperCase_def upper_char_def)

lemma toUpperCase_POST: "toUpperCase ''POST'' = ''POST''"
  by (simp add: toUpperCase_def upper_char_def)

lemma toUpperCase_PUT: "toUpperCase ''PUT'' = ''PUT''"
  by (simp add: toUpperCase_def upper_char_def)

lemma toUpperCase_DELETE: "toUpperCase ''DELETE'' = ''DELETE''"
  by (simp add: toUpperCase_def upper_char_def)

lemmas toUpperCase_verbs = toUpperCase_GET toUpperCase_POST toUpperCase_PUT toUpperCase_DELETE

section \<open>Request wrapper: connection state\<close>

text \<open>
  Claim C3. While no transport is installed (\<open>apiService\<close> is still \<open>null\<close>),
  \<open>isServiceConnected\<close> is false and every \<open>makeRequest\<close> raises the classified error
  with code \<open>SERVICE_NOT_CONNECTED\<close>, leaves the wrapper (its request counter included)
  as it was, and adds nothing to the trace but the entry into the wrapper: the transport
  is not invoked. After \<open>setServiceBridge\<close> with a non-null argument
  \<open>isServiceConnected\<close> is true.
\<close>

theorem not_connected_request_fails:
  assumes "apiService w = Null"
  shows "\<not> isServiceConnected w
    \<and> makeRequest method path payload options w e
        = (Inl \<lparr>message = ''API Service not connected'', status = Some 503,
                 code = Some ''SERVICE_NOT_CONNECTED'', details = None\<rparr>,
           w, e\<lparr>trace := trace e @ [Request method path]\<rparr>)
    \<and> (not_null svc \<longrightarrow> isServiceConnected (setServiceBridge svc w))"
  using assms
  by (simp add: isServiceConnected_def makeRequest_def createApiError_def new_Error_def emit_def
      setServiceBridge_def)

theorem not_connected_request_fails_witness:
  "apiService new_ApiServiceWrapper = Null
    \<and> \<not> isServiceConnected new_ApiServiceWrapper
    \<and> makeRequest ''GET'' ''/api/v1/demo/items'' JUndefined JUndefined new_ApiServiceWrapper env0
        = (Inl \<lparr>message = ''API Service not connected'', status = Some 503,
                 code = Some ''SERVICE_NOT_CONNECTED'', details = None\<rparr>,
           new_ApiServiceWrapper, env0\<lparr>trace := [Request ''GET'' ''/api/v1/demo/items'']\<rparr>)
    \<and> requestCount new_ApiServiceWrapper = 0
    \<and> not_null (Service echo_transport)
    \<and> isServiceConnected (setServiceBridge (Service echo_transport) new_ApiServiceWrapper)"
proof -
  have h: "apiService new_ApiServiceWrapper = Null"
    by (simp add: new_ApiServiceWrapper_def)
  have t: "trace env0 = []"
    by (simp add: env0_def env_of_def)
  from not_connected_request_fails [OF h, of "''GET''" "''/api/v1/demo/items''" JUndefined JUndefined env0
      "Service echo_transport"] h t
  show ?thesis by (simp add: new_ApiServiceWrapper_def)
qed

section \<open>Request wrapper: the success path\<close>

lemma makeRequest_resolved:
  assumes "isServiceConnected w"
    and "fst (dispatch (apiService w) method path payload options (snd (now (emit (Request method path) e)))) = Inr raw"
  shows "\<exists>rt ts. fst (makeRequest method path payload options w e)
           = Inr \<lparr>data = raw, r_status = 200, responseTime = rt, timestamp = ts\<rparr>"
  using assms
  by (cases "dispatch (apiService w) method path payload options (snd (now (emit (Request method path) e)))")
     (simp add: makeRequest_def now_def Let_def split: prod.splits)

lemma makeRequest_returned:
  assumes "makeRequest method path payload options w e = (Inr resp, w', e')"
  shows "r_status resp = 200"
  using assms
  by (auto simp: makeRequest_def Let_def split: if_splits prod.splits sum.splits)

text \<open>
  Claim C10. Whenever \<open>makeRequest\<close> returns a response envelope, its status field is
  200; and whenever the wrapper is connected and the transport call resolves with a raw
  response, \<open>makeRequest\<close> returns an envelope holding that raw response as \<open>data\<close> and
  200 as status. No status is read from the raw response: the witness is a transport
  whose raw response itself says 404.
\<close>

theorem makeRequest_success_status_200:
  "(makeRequest method path payload options w e = (Inr resp, w', e') \<longrightarrow> r_status resp = 200)
 \<and> (isServiceConnected w
      \<and> fst (dispatch (apiService w) method path payload options
                (snd (now (emit (Request method path) e)))) = Inr raw \<longrightarrow>
      (\<exists>rt ts. fst (makeRequest method path payload options w e)
           = Inr \<lparr>data = raw, r_status = 200, responseTime = rt, timestamp = ts\<rparr>))"
  using makeRequest_returned [of "method" "path" payload options w e resp w' e']
    makeRequest_resolved [of w "method" "path" payload options e raw]
  by blast

theorem makeRequest_success_status_200_witness:
  "isServiceConnected wrapper_echo
   \<and> fst (dispatch (apiService wrapper_echo) ''GET'' ''/api/v1/demo/items'' JUndefined JUndefined
           (snd (now (emit (Request ''GET'' ''/api/v1/demo/items'') env0))))
       = Inr (JObj [(''data'', JArr []), (''count'', JNum 0), (''status'', JNum 404)])
   \<and> makeRequest ''GET'' ''/api/v1/demo/items'' JUndefined JUndefined wrapper_echo env0
    = (Inr \<lparr>data = JObj [(''data'', JArr []), (''count'', JNum 0), (''status'', JNum 404)],
             r_status = 200, responseTime = 7, timestamp = 1014\<rparr>,
       \<lparr>apiService = Service echo_transport, isConnected = True, requestCount = 1\<rparr>,
       env0\<lparr>reads := 3, trace := [Request ''GET'' ''/api/v1/demo/items'',
                                      Dispatch ''get'' ''/api/v1/demo/items'' JUndefined]\<rparr>)
   \<and> r_status \<lparr>data = JObj [(''data'', JArr []), (''count'', JNum 0), (''status'', JNum 404)],
             r_status = 200, responseTime = 7, timestamp = 1014\<rparr> = 200
   \<and> (\<exists>rt ts. fst (makeRequest ''GET'' ''/api/v1/demo/items'' JUndefined JUndefined wrapper_echo env0)
           = Inr \<lparr>data = JObj [(''data'', JArr []), (''count'', JNum 0), (''status'', JNum 404)],
                   r_status = 200, responseTime = rt, timestamp = ts\<rparr>)"
proof -
  have run: "makeRequest ''GET'' ''/api/v1/demo/items'' JUndefined JUndefined wrapper_echo env0
    = (Inr \<lparr>data = JObj [(''data'', JArr []), (''count'', JNum 0), (''status'', JNum 404)],
             r_status = 200, responseTime = 7, timestamp = 1014\<rparr>,
       \<lparr>apiService = Service echo_transport, isConnected = True, requestCount = 1\<rparr>,
       env0\<lparr>reads := 3, trace := [Request ''GET'' ''/api/v1/demo/items'',
                                      Dispatch ''get'' ''/api/v1/demo/items'' JUndefined]\<rparr>)"
    by (simp add: makeRequest_def wrapper_echo_def setServiceBridge_def new_ApiServiceWrapper_def
        isServiceConnected_def env0_def env_of_def now_def emit_def dispatch_def invoke_def
        toUpperCase_GET echo_transport_def)
  have conn: "isServiceConnected wrapper_echo"
    by (simp add: wrapper_echo_def setServiceBridge_def isServiceConnected_def)
  have disp: "fst (dispatch (apiService wrapper_echo) ''GET'' ''/api/v1/demo/items'' JUndefined JUndefined
           (snd (now (emit (Request ''GET'' ''/api/v1/demo/items'') env0))))
       = Inr (JObj [(''data'', JArr []), (''count'', JNum 0), (''status'', JNum 404)])"
    by (simp add: wrapper_echo_def setServiceBridge_def dispatch_def invoke_def toUpperCase_GET
        echo_transport_def)
  note inst = makeRequest_success_status_200 [of "''GET''" "''/api/v1/demo/items''" JUndefined JUndefined
      wrapper_echo env0 _ _ _ "JObj [(''data'', JArr []), (''count'', JNum 0), (''status'', JNum 404)]"]
  from inst conn disp
  have p: "\<exists>rt ts. fst (makeRequest ''GET'' ''/api/v1/demo/items'' JUndefined JUndefined wrapper_echo env0)
           = Inr \<lparr>data = JObj [(''data'', JArr []), (''count'', JNum 0), (''status'', JNum 404)],
                   r_status = 200, responseTime = rt, timestamp = ts\<rparr>"
    by blast
  from run conn disp p show ?thesis by simp
qed


section \<open>Request wrapper: error classification\<close>

lemma includes_timeout_1: "includes_str ''timeout of 5000ms exceeded'' ''timeout''"
  by (simp add: startsWith_def)

lemma includes_timeout_2: "includes_str ''Network Error after timeout'' ''timeout''"
  by (simp add: startsWith_def)

lemma includes_timeout_3: "\<not> includes_str ''boom'' ''timeout''"
  by (simp add: startsWith_def)

declare includes_str.simps [simp del]

lemma getErrorCode_not_other:
  "getErrorCode st \<noteq> ''TIMEOUT''" "getErrorCode st \<noteq> ''NETWORK_ERROR''" "getErrorCode st \<noteq> ''UNKNOWN_ERROR''"
  by (simp_all add: getErrorCode_def)

lemma getErrorCode_table: "(st, c, m) \<in> set fixed_table \<Longrightarrow> getErrorCode st = c"
  apply (simp add: fixed_table_def)
  apply (elim disjE conjE)
  apply (simp_all add: getErrorCode_def)
  done

lemma getErrorMessage_table:
  "(st, c, m) \<in> set fixed_table \<Longrightarrow>
   getErrorMessage st body =
     (if st \<in> {401, 403, 500, 503} then JStr m
      else if truthy (serverMessage_of body) then serverMessage_of body else JStr m)"
  apply (simp add: fixed_table_def)
  apply (elim disjE conjE)
  apply (simp_all add: getErrorMessage_def Let_def js_or_def serverMessage_of_def)
  done

lemma show_int_503: "show_int 503 = ''503''"
  by code_simp

lemma show_int_404: "show_int 404 = ''404''"
  by code_simp

text \<open>
  Claim C1, as amended. For an error carrying a response whose status is one of 400, 401,
  403, 404, 422, 500, 503, the classified error has the code of the table and that status.
  The message helper \<open>getErrorMessage\<close> yields the fixed text of the table for 401, 403,
  500 and 503 whatever the body says, and for 400, 404 and 422 the server-supplied
  \<open>detail\<close> (else \<open>message\<close>) verbatim when it is truthy, the fixed text otherwise.
  (Nothing is said here of the message field of the classified error.)
\<close>

theorem http_status_table:
  assumes "err_response err = Some r" and "(resp_status r, c, m) \<in> set fixed_table"
  shows "code (handleApiError err rt) = Some c
    \<and> status (handleApiError err rt) = Some (resp_status r)
    \<and> getErrorMessage (resp_status r) (resp_data r) =
        (if resp_status r \<in> {401, 403, 500, 503} then JStr m
         else if truthy (serverMessage_of (resp_data r)) then serverMessage_of (resp_data r)
         else JStr m)"
  using assms(1) getErrorCode_table [OF assms(2)] getErrorMessage_table [OF assms(2)]
  by (simp add: handleApiError_def createApiError_def Let_def)

theorem http_status_table_witness:
  "err_response (http_error 404 (JObj [(''detail'', JStr ''Item 7 does not exist'')]))
     = Some \<lparr>resp_status = 404, resp_data = JObj [(''detail'', JStr ''Item 7 does not exist'')]\<rparr>
   \<and> (404, ''NOT_FOUND'', ''Resource not found'') \<in> set fixed_table
   \<and> code (handleApiError (http_error 404 (JObj [(''detail'', JStr ''Item 7 does not exist'')])) 7) = Some ''NOT_FOUND''
   \<and> status (handleApiError (http_error 404 (JObj [(''detail'', JStr ''Item 7 does not exist'')])) 7) = Some 404
   \<and> getErrorMessage 404 (JObj [(''detail'', JStr ''Item 7 does not exist'')]) = JStr ''Item 7 does not exist''"
proof -
  have r: "err_response (http_error 404 (JObj [(''detail'', JStr ''Item 7 does not exist'')]))
     = Some \<lparr>resp_status = 404, resp_data = JObj [(''detail'', JStr ''Item 7 does not exist'')]\<rparr>"
    by (simp add: http_error_def)
  have t: "(resp_status \<lparr>resp_status = 404, resp_data = JObj [(''detail'', JStr ''Item 7 does not exist'')]\<rparr>,
            ''NOT_FOUND'', ''Resource not found'') \<in> set fixed_table"
    by (simp add: fixed_table_def)
  have sm: "serverMessage_of (JObj [(''detail'', JStr ''Item 7 does not exist'')]) = JStr ''Item 7 does not exist''"
    by (simp add: serverMessage_of_def js_or_def)
  from http_status_table [OF r t, of 7] r t sm show ?thesis
    by simp
qed

text \<open>
  Claim C1 as stated fails. An HTTP 503 whose body carries \<open>detail: "maintenance window"\<close>
  should, by the claim, be classified with that text as its message. The classified
  error's message is the raised error's own message, and \<open>getErrorMessage\<close> itself keeps
  the fixed text for 503.
\<close>

theorem http_message_counterexample:
  "message (handleApiError (http_error 503 (JObj [(''detail'', JStr ''maintenance window'')])) 7)
     = ''Request failed with status code 503''
   \<and> message (handleApiError (http_error 503 (JObj [(''detail'', JStr ''maintenance window'')])) 7)
     \<noteq> ''maintenance window''
   \<and> getErrorMessage 503 (JObj [(''detail'', JStr ''maintenance window'')])
     = JStr ''Service unavailable - please try again later''"
  by (simp add: handleApiError_def createApiError_def http_error_def show_int_503 getErrorMessage_def Let_def)

lemma classify_http:
  assumes "err_response err = Some r"
  shows "code (handleApiError err rt) = Some (getErrorCode (resp_status r))"
    and "status (handleApiError err rt) = Some (resp_status r)"
  using assms by (simp_all add: handleApiError_def createApiError_def Let_def)

lemma classify_network:
  assumes "err_response err = None" and "err_code err = Some ''ERR_NETWORK''"
  shows "code (handleApiError err rt) = Some ''NETWORK_ERROR''"
    and "status (handleApiError err rt) = Some 0"
  using assms by (simp_all add: handleApiError_def createApiError_def)

lemma classify_timeout:
  assumes "err_response err = None" and "err_code err \<noteq> Some ''ERR_NETWORK''"
    and "err_message err = Some m" and "includes_str m ''timeout''"
  shows "code (handleApiError err rt) = Some ''TIMEOUT''"
    and "status (handleApiError err rt) = Some 408"
  using assms by (simp_all add: handleApiError_def createApiError_def)

lemma classify_unknown:
  assumes "err_response err = None" and "err_code err \<noteq> Some ''ERR_NETWORK''"
    and "err_message err = None \<or> (err_message err = Some m \<and> \<not> includes_str m ''timeout'')"
  shows "code (handleApiError err rt) = Some ''UNKNOWN_ERROR''"
    and "status (handleApiError err rt) = Some 500"
  using assms by (auto simp: handleApiError_def createApiError_def)

text \<open>
  Claim C6. The classifier is a function of the raised error and tries its predicates in
  order: an error with a response is classified by the response's status (code from
  \<open>getErrorCode\<close>, never one of the three later kinds), whatever its code and message say;
  without a response, code \<open>ERR_NETWORK\<close> gives \<open>NETWORK_ERROR\<close> with status 0; otherwise
  a message containing \<open>timeout\<close> gives \<open>TIMEOUT\<close> with status 408; otherwise
  \<open>UNKNOWN_ERROR\<close> with status 500.
\<close>

theorem classifier_first_match:
  "(err_response err = Some r \<longrightarrow>
       code (handleApiError err rt) = Some (getErrorCode (resp_status r))
     \<and> status (handleApiError err rt) = Some (resp_status r)
     \<and> code (handleApiError err rt) \<notin> {Some ''NETWORK_ERROR'', Some ''TIMEOUT'', Some ''UNKNOWN_ERROR''})
 \<and> (err_response err = None \<and> err_code err = Some ''ERR_NETWORK'' \<longrightarrow>
       code (handleApiError err rt) = Some ''NETWORK_ERROR''
     \<and> status (handleApiError err rt) = Some 0)
 \<and> (err_response err = None \<and> err_code err \<noteq> Some ''ERR_NETWORK''
       \<and> err_message err = Some m \<and> includes_str m ''timeout'' \<longrightarrow>
       code (handleApiError err rt) = Some ''TIMEOUT''
     \<and> status (handleApiError err rt) = Some 408)
 \<and> (err_response err = None \<and> err_code err \<noteq> Some ''ERR_NETWORK''
       \<and> (err_message err = None \<or> (err_message err = Some m \<and> \<not> includes_str m ''timeout'')) \<longrightarrow>
       code (handleApiError err rt) = Some ''UNKNOWN_ERROR''
     \<and> status (handleApiError err rt) = Some 500)"
proof -
  have http: "code (handleApiError err rt) = Some (getErrorCode (resp_status r))
     \<and> status (handleApiError err rt) = Some (resp_status r)
     \<and> code (handleApiError err rt) \<notin> {Some ''NETWORK_ERROR'', Some ''TIMEOUT'', Some ''UNKNOWN_ERROR''}"
    if "err_response err = Some r"
    using classify_http [OF that, of rt] by (simp add: getErrorCode_not_other)
  have net: "code (handleApiError err rt) = Some ''NETWORK_ERROR'' \<and> status (handleApiError err rt) = Some 0"
    if "err_response err = None \<and> err_code err = Some ''ERR_NETWORK''"
    using that classify_network [of err rt] by simp
  have tmo: "code (handleApiError err rt) = Some ''TIMEOUT'' \<and> status (handleApiError err rt) = Some 408"
    if "err_response err = None \<and> err_code err \<noteq> Some ''ERR_NETWORK''
       \<and> err_message err = Some m \<and> includes_str m ''timeout''"
    using that classify_timeout [of err m rt] by simp
  have unk: "code (handleApiError err rt) = Some ''UNKNOWN_ERROR'' \<and> status (handleApiError err rt) = Some 500"
    if "err_response err = None \<and> err_code err \<noteq> Some ''ERR_NETWORK''
       \<and> (err_message err = None \<or> (err_message err = Some m \<and> \<not> includes_str m ''timeout''))"
    using that classify_unknown [of err m rt] by simp
  from http net tmo unk show ?thesis by blast
qed

theorem classifier_first_match_witness:
  "err_response timeout_http_error = Some \<lparr>resp_status = 404, resp_data = JStr ''gateway timeout''\<rparr>
   \<and> err_message timeout_http_error = Some ''timeout of 5000ms exceeded''
   \<and> includes_str ''timeout of 5000ms exceeded'' ''timeout''
   \<and> code (handleApiError timeout_http_error 12) = Some ''NOT_FOUND''
   \<and> status (handleApiError timeout_http_error 12) = Some 404
   \<and> err_response network_error = None
   \<and> err_message network_error = Some ''Network Error after timeout''
   \<and> includes_str ''Network Error after timeout'' ''timeout''
   \<and> code (handleApiError network_error 12) = Some ''NETWORK_ERROR''
   \<and> status (handleApiError network_error 12) = Some 0
   \<and> err_response timeout_error = None
   \<and> err_code timeout_error = Some ''ECONNABORTED''
   \<and> code (handleApiError timeout_error 12) = Some ''TIMEOUT''
   \<and> status (handleApiError timeout_error 12) = Some 408
   \<and> err_response (new_Error ''boom'') = None
   \<and> err_code (new_Error ''boom'') = None
   \<and> code (handleApiError (new_Error ''boom'') 12) = Some ''UNKNOWN_ERROR''
   \<and> status (handleApiError (new_Error ''boom'') 12) = Some 500"
proof -
  have r1: "err_response timeout_http_error = Some \<lparr>resp_status = 404, resp_data = JStr ''gateway timeout''\<rparr>"
    and m1: "err_message timeout_http_error = Some ''timeout of 5000ms exceeded''"
    by (simp_all add: timeout_http_error_def)
  have r2: "err_response network_error = None" and c2: "err_code network_error = Some ''ERR_NETWORK''"
    and m2: "err_message network_error = Some ''Network Error after timeout''"
    by (simp_all add: network_error_def)
  have r3: "err_response timeout_error = None" and c3: "err_code timeout_error = Some ''ECONNABORTED''"
    and m3: "err_message timeout_error = Some ''timeout of 5000ms exceeded''"
    by (simp_all add: timeout_error_def)
  have r4: "err_response (new_Error ''boom'') = None" and c4: "err_code (new_Error ''boom'') = None"
    and m4: "err_message (new_Error ''boom'') = Some ''boom''"
    by (simp_all add: new_Error_def)
  have p1: "code (handleApiError timeout_http_error 12) = Some ''NOT_FOUND''
      \<and> status (handleApiError timeout_http_error 12) = Some 404"
    using classifier_first_match [of timeout_http_error
        "\<lparr>resp_status = 404, resp_data = JStr ''gateway timeout''\<rparr>" 12 "''boom''"] r1
    by (simp add: getErrorCode_def)
  have p2: "code (handleApiError network_error 12) = Some ''NETWORK_ERROR''
      \<and> status (handleApiError network_error 12) = Some 0"
    using classifier_first_match [of network_error "\<lparr>resp_status = 404, resp_data = JNull\<rparr>" 12 "''boom''"] r2 c2
    by simp
  have p3: "code (handleApiError timeout_error 12) = Some ''TIMEOUT''
      \<and> status (handleApiError timeout_error 12) = Some 408"
    using classifier_first_match [of timeout_error "\<lparr>resp_status = 404, resp_data = JNull\<rparr>" 12
        "''timeout of 5000ms exceeded''"] r3 c3 m3 includes_timeout_1
    by simp
  have p4: "code (handleApiError (new_Error ''boom'') 12) = Some ''UNKNOWN_ERROR''
      \<and> status (handleApiError (new_Error ''boom'') 12) = Some 500"
    using classifier_first_match [of "new_Error ''boom''" "\<lparr>resp_status = 404, resp_data = JNull\<rparr>" 12
        "''boom''"] r4 c4 m4 includes_timeout_3
    by simp
  from r1 m1 r2 m2 r3 c3 r4 c4 p1 p2 p3 p4 includes_timeout_1 includes_timeout_2
  show ?thesis by simp
qed

section \<open>Reachability checker: a single check\<close>

lemma fetch_now [simp]: "fetch (snd (now e)) = fetch e" "fetches (snd (now e)) = fetches e"
  by (simp_all add: now_def)

lemma check_resolved:
  assumes "fetch e (fetches e) = Resolved st"
  shows "\<exists>r. o_data (fst (checkCommunityStatus s e)) = Some r \<and> c_status r = Online \<and> error r = None"
  using assms
  by (simp add: checkCommunityStatus_def Let_def now_def emit_def succeeded_def split: prod.splits)

lemma check_rejected:
  assumes "fetch e (fetches e) = Rejected err"
  shows "\<exists>r. o_data (fst (checkCommunityStatus s e)) = Some r
           \<and> c_status r = fst (classify_failure err) \<and> error r = Some (snd (classify_failure err))"
  using assms
  by (simp add: checkCommunityStatus_def Let_def now_def emit_def split: prod.splits)

text \<open>
  Claim C4. \<open>checkCommunityStatus\<close> classifies the outcome of its \<open>fetch\<close>: a resolved
  request gives status online whatever status the response exposes; a rejection by an
  \<open>AbortError\<close> (the 10-second timer) gives status error, not offline, with the text
  "Request timeout after 10 seconds"; a rejection by an error whose message contains
  \<open>NetworkError\<close> or \<open>Failed to fetch\<close> gives offline; a rejection by any other error
  gives offline with the error's own message as text.
\<close>

theorem checkOnce_classification:
  "(fetch e (fetches e) = Resolved st \<longrightarrow>
      (\<exists>r. o_data (fst (checkCommunityStatus s e)) = Some r \<and> c_status r = Online))
 \<and> (fetch e (fetches e) = Rejected err \<and> err_instance err \<and> err_name err = ''AbortError'' \<longrightarrow>
      (\<exists>r. o_data (fst (checkCommunityStatus s e)) = Some r \<and> c_status r = ErrorStatus
           \<and> c_status r \<noteq> Offline \<and> error r = Some ''Request timeout after 10 seconds''))
 \<and> (fetch e (fetches e) = Rejected err \<and> err_instance err \<and> err_name err \<noteq> ''AbortError''
       \<and> (includes_str (message_of err) ''NetworkError'' \<or> includes_str (message_of err) ''Failed to fetch'') \<longrightarrow>
      (\<exists>r. o_data (fst (checkCommunityStatus s e)) = Some r \<and> c_status r = Offline))
 \<and> (fetch e (fetches e) = Rejected err \<and> err_instance err \<and> err_name err \<noteq> ''AbortError''
       \<and> \<not> includes_str (message_of err) ''NetworkError'' \<and> \<not> includes_str (message_of err) ''Failed to fetch'' \<longrightarrow>
      (\<exists>r. o_data (fst (checkCommunityStatus s e)) = Some r \<and> c_status r = Offline
           \<and> error r = Some (message_of err)))"
proof (intro conjI impI)
  assume "fetch e (fetches e) = Resolved st"
  from check_resolved [OF this]
  show "\<exists>r. o_data (fst (checkCommunityStatus s e)) = Some r \<and> c_status r = Online" by blast
next
  assume a: "fetch e (fetches e) = Rejected err \<and> err_instance err \<and> err_name err = ''AbortError''"
  then have "classify_failure err = (ErrorStatus, ''Request timeout after 10 seconds'')"
    by (simp add: classify_failure_def)
  with check_rejected [of e err s] a
  show "\<exists>r. o_data (fst (checkCommunityStatus s e)) = Some r \<and> c_status r = ErrorStatus
           \<and> c_status r \<noteq> Offline \<and> error r = Some ''Request timeout after 10 seconds''"
    by auto
next
  assume a: "fetch e (fetches e) = Rejected err \<and> err_instance err \<and> err_name err \<noteq> ''AbortError''
       \<and> (includes_str (message_of err) ''NetworkError'' \<or> includes_str (message_of err) ''Failed to fetch'')"
  then have "fst (classify_failure err) = Offline"
    by (auto simp: classify_failure_def)
  with check_rejected [of e err s] a
  show "\<exists>r. o_data (fst (checkCommunityStatus s e)) = Some r \<and> c_status r = Offline"
    by auto
next
  assume a: "fetch e (fetches e) = Rejected err \<and> err_instance err \<and> err_name err \<noteq> ''AbortError''
       \<and> \<not> includes_str (message_of err) ''NetworkError'' \<and> \<not> includes_str (message_of err) ''Failed to fetch''"
  then have "classify_failure err = (Offline, message_of err)"
    by (simp add: classify_failure_def)
  with check_rejected [of e err s] a
  show "\<exists>r. o_data (fst (checkCommunityStatus s e)) = Some r \<and> c_status r = Offline
           \<and> error r = Some (message_of err)"
    by auto
qed

text \<open>
  The \<open>catch\<close> block also provides for a raised value that is not an \<open>Error\<close> instance
  (which \<open>fetch\<close> does not produce): status offline with the text "Unknown error".
\<close>

lemma check_rejected_non_error:
  assumes "fetch e (fetches e) = Rejected err" and "\<not> err_instance err"
  shows "\<exists>r. o_data (fst (checkCommunityStatus s e)) = Some r \<and> c_status r = Offline
           \<and> error r = Some ''Unknown error''"
  using check_rejected [OF assms(1), of s] assms(2)
  by (simp add: classify_failure_def)

lemma classify_nonempty:
  "snd (classify_failure err) = [] \<Longrightarrow> err_instance err \<and> err_name err \<noteq> ''AbortError'' \<and> message_of err = []"
  by (auto simp: classify_failure_def split: if_splits)

lemma classify_status: "fst (classify_failure err) = Offline \<or> fst (classify_failure err) = ErrorStatus"
  by (auto simp: classify_failure_def)

text \<open>
  Claim C9, as amended. Every result of \<open>checkCommunityStatus\<close> with status online has
  no error text (\<open>null\<close>); every result with status offline or error has an error text,
  and that text is empty only when the \<open>fetch\<close> was rejected by an error (not an abort)
  whose own message is the empty string, which is copied as it is. The status is never
  checking.
\<close>

theorem check_result_error_text:
  "\<exists>r. o_data (fst (checkCommunityStatus s e)) = Some r
     \<and> (c_status r = Online \<longrightarrow> error r = None)
     \<and> (c_status r = Offline \<or> c_status r = ErrorStatus \<longrightarrow>
          (\<exists>t. error r = Some t
             \<and> (t = [] \<longrightarrow> (\<exists>err. fetch e (fetches e) = Rejected err \<and> err_instance err
                                \<and> err_name err \<noteq> ''AbortError'' \<and> message_of err = []))))
     \<and> c_status r \<noteq> Checking"
proof (cases "fetch e (fetches e)")
  case (Resolved st)
  from check_resolved [OF this, of s] show ?thesis by auto
next
  case (Rejected err)
  from check_rejected [OF this, of s] obtain r where
    r: "o_data (fst (checkCommunityStatus s e)) = Some r"
       "c_status r = fst (classify_failure err)" "error r = Some (snd (classify_failure err))"
    by blast
  from classify_status [of err] r(2) have st: "c_status r \<noteq> Online" "c_status r \<noteq> Checking" by auto
  from classify_nonempty [of err] Rejected r(3)
  have "\<exists>t. error r = Some t
             \<and> (t = [] \<longrightarrow> (\<exists>err. fetch e (fetches e) = Rejected err \<and> err_instance err
                                \<and> err_name err \<noteq> ''AbortError'' \<and> message_of err = []))"
    by auto
  with r(1) st show ?thesis by auto
qed

text \<open>
  Claim C9 as stated fails: when \<open>fetch\<close> is rejected by an error with an empty message,
  the result has status offline and the empty string as its error text.
\<close>

theorem empty_error_text_counterexample:
  "fst (checkCommunityStatus new_ExternalApiService env_blank)
     = \<lparr>success = False,
        o_data = Some \<lparr>url = ''https://community.braindrive.ai/'', c_status = Offline,
                       c_responseTime = Some 7, c_timestamp = 1014, statusCode = None,
                       error = Some []\<rparr>,
        o_error = Some [],
        timing = Some \<lparr>startTime = 1000, endTime = 1007, duration = 7\<rparr>\<rparr>"
  by (simp add: checkCommunityStatus_def env_blank_def env_of_def now_def emit_def new_Error_def
      classify_failure_def message_of_def new_ExternalApiService_def targetUrl_def includes_str.simps)


lemma includes_failed_to_fetch: "includes_str ''Failed to fetch'' ''Failed to fetch''"
  by (simp add: includes_str.simps startsWith_def)

lemma boom_not_network:
  "\<not> includes_str ''boom'' ''NetworkError''" "\<not> includes_str ''boom'' ''Failed to fetch''"
  by (simp_all add: includes_str.simps startsWith_def)

theorem checkOnce_classification_witness:
  "fetch env_online (fetches env_online) = Resolved 0
   \<and> (\<exists>r. o_data (fst (checkCommunityStatus new_ExternalApiService env_online)) = Some r
          \<and> c_status r = Online)
   \<and> fetch env_abort (fetches env_abort) = Rejected abort_error
   \<and> err_instance abort_error \<and> err_name abort_error = ''AbortError''
   \<and> (\<exists>r. o_data (fst (checkCommunityStatus new_ExternalApiService env_abort)) = Some r
          \<and> c_status r = ErrorStatus \<and> error r = Some ''Request timeout after 10 seconds'')
   \<and> fetch env0 (fetches env0) = Rejected failed_to_fetch
   \<and> err_instance failed_to_fetch \<and> err_name failed_to_fetch = ''TypeError''
   \<and> includes_str (message_of failed_to_fetch) ''Failed to fetch''
   \<and> (\<exists>r. o_data (fst (checkCommunityStatus new_ExternalApiService env0)) = Some r
          \<and> c_status r = Offline)
   \<and> fetch env_boom (fetches env_boom) = Rejected (new_Error ''boom'')
   \<and> err_instance (new_Error ''boom'') \<and> err_name (new_Error ''boom'') = ''Error''
   \<and> (\<exists>r. o_data (fst (checkCommunityStatus new_ExternalApiService env_boom)) = Some r
          \<and> c_status r = Offline \<and> error r = Some ''boom'')"
proof -
  have h1: "fetch env_online (fetches env_online) = Resolved 0"
    by (simp add: env_online_def env_of_def)
  have h2: "fetch env_abort (fetches env_abort) = Rejected abort_error"
    "err_instance abort_error" "err_name abort_error = ''AbortError''"
    by (simp_all add: env_abort_def env_of_def abort_error_def)
  have h3: "fetch env0 (fetches env0) = Rejected failed_to_fetch"
    "err_instance failed_to_fetch" "err_name failed_to_fetch = ''TypeError''"
    "includes_str (message_of failed_to_fetch) ''Failed to fetch''"
    by (simp_all add: env0_def env_of_def failed_to_fetch_def message_of_def includes_failed_to_fetch)
  have h4: "fetch env_boom (fetches env_boom) = Rejected (new_Error ''boom'')"
    "err_instance (new_Error ''boom'')" "err_name (new_Error ''boom'') = ''Error''"
    "message_of (new_Error ''boom'') = ''boom''"
    by (simp_all add: env_boom_def env_of_def new_Error_def message_of_def)
  have p1: "\<exists>r. o_data (fst (checkCommunityStatus new_ExternalApiService env_online)) = Some r
          \<and> c_status r = Online"
    using checkOnce_classification [where e = env_online and st = 0 and s = new_ExternalApiService] h1 by auto
  have p2: "\<exists>r. o_data (fst (checkCommunityStatus new_ExternalApiService env_abort)) = Some r
          \<and> c_status r = ErrorStatus \<and> error r = Some ''Request timeout after 10 seconds''"
    using checkOnce_classification [where e = env_abort and err = abort_error and s = new_ExternalApiService] h2 by auto
  have p3: "\<exists>r. o_data (fst (checkCommunityStatus new_ExternalApiService env0)) = Some r
          \<and> c_status r = Offline"
    using checkOnce_classification [where e = env0 and err = failed_to_fetch and s = new_ExternalApiService] h3 by auto
  have p4: "\<exists>r. o_data (fst (checkCommunityStatus new_ExternalApiService env_boom)) = Some r
          \<and> c_status r = Offline \<and> error r = Some ''boom''"
    using checkOnce_classification [where e = env_boom and err = "new_Error ''boom''" and s = new_ExternalApiService] h4
      boom_not_network by auto
  from h1 h2 h3 h4(1-3) p1 p2 p3 p4 show ?thesis by blast
qed

theorem check_result_error_text_witness:
  "(\<exists>r. o_data (fst (checkCommunityStatus new_ExternalApiService env_online)) = Some r
        \<and> c_status r = Online \<and> error r = None)
   \<and> (\<exists>r. o_data (fst (checkCommunityStatus new_ExternalApiService env_abort)) = Some r
        \<and> c_status r = ErrorStatus \<and> error r = Some ''Request timeout after 10 seconds'')
   \<and> (\<exists>r. o_data (fst (checkCommunityStatus new_ExternalApiService env_blank)) = Some r
        \<and> c_status r = Offline \<and> error r = Some [])
   \<and> (\<exists>err. fetch env_blank (fetches env_blank) = Rejected err \<and> err_instance err
        \<and> err_name err \<noteq> ''AbortError'' \<and> message_of err = [])"
proof -
  have e1: "fst (checkCommunityStatus new_ExternalApiService env_online)
     = \<lparr>success = True,
        o_data = Some \<lparr>url = ''https://community.braindrive.ai/'', c_status = Online,
                       c_responseTime = Some 7, c_timestamp = 1014, statusCode = None,
                       error = None\<rparr>,
        o_error = None,
        timing = Some \<lparr>startTime = 1000, endTime = 1007, duration = 7\<rparr>\<rparr>"
    by (simp add: checkCommunityStatus_def env_online_def env_of_def now_def emit_def succeeded_def
        new_ExternalApiService_def targetUrl_def)
  have e2: "fst (checkCommunityStatus new_ExternalApiService env_abort)
     = \<lparr>success = False,
        o_data = Some \<lparr>url = ''https://community.braindrive.ai/'', c_status = ErrorStatus,
                       c_responseTime = Some 7, c_timestamp = 1014, statusCode = None,
                       error = Some ''Request timeout after 10 seconds''\<rparr>,
        o_error = Some ''Request timeout after 10 seconds'',
        timing = Some \<lparr>startTime = 1000, endTime = 1007, duration = 7\<rparr>\<rparr>"
    by (simp add: checkCommunityStatus_def env_abort_def env_of_def now_def emit_def abort_error_def
        classify_failure_def new_ExternalApiService_def targetUrl_def)
  have e3: "fst (checkCommunityStatus new_ExternalApiService env_blank)
     = \<lparr>success = False,
        o_data = Some \<lparr>url = ''https://community.braindrive.ai/'', c_status = Offline,
                       c_responseTime = Some 7, c_timestamp = 1014, statusCode = None,
                       error = Some []\<rparr>,
        o_error = Some [],
        timing = Some \<lparr>startTime = 1000, endTime = 1007, duration = 7\<rparr>\<rparr>"
    by (simp add: checkCommunityStatus_def env_blank_def env_of_def now_def emit_def new_Error_def
        classify_failure_def message_of_def new_ExternalApiService_def targetUrl_def includes_str.simps)
  from check_result_error_text [of new_ExternalApiService env_online] e1
  have p1: "\<exists>r. o_data (fst (checkCommunityStatus new_ExternalApiService env_online)) = Some r
        \<and> c_status r = Online \<and> error r = None"
    by simp
  from check_result_error_text [of new_ExternalApiService env_abort] e2
  have p2: "\<exists>r. o_data (fst (checkCommunityStatus new_ExternalApiService env_abort)) = Some r
        \<and> c_status r = ErrorStatus \<and> error r = Some ''Request timeout after 10 seconds''"
    by simp
  from e3
  have p3: "\<exists>r. o_data (fst (checkCommunityStatus new_ExternalApiService env_blank)) = Some r
        \<and> c_status r = Offline \<and> error r = Some []"
    by simp
  from check_result_error_text [of new_ExternalApiService env_blank] e3
  have p4: "\<exists>err. fetch env_blank (fetches env_blank) = Rejected err \<and> err_instance err
        \<and> err_name err \<noteq> ''AbortError'' \<and> message_of err = []"
    by simp
  from p1 p2 p3 p4 show ?thesis by blast
qed

section \<open>Domain operations: local validation\<close>

lemma trim_empty: "trim [] = []"
  by (simp add: trim_def)

lemma trim_ok: "trim ''ok'' = ''ok''"
  by (simp add: trim_def is_ws_def)

lemma trim_spaces: "trim (replicate n CHR '' '') = []"
proof -
  have "dropWhile is_ws (replicate n CHR '' '') = []"
    by (induction n) (simp_all add: is_ws_def)
  then show ?thesis by (simp add: trim_def)
qed

lemma validate_errors:
  "snd (validateItemData d) =
     (case name d of
        Some n \<Rightarrow> if trim n = [] then [''Name is required'']
                  else if length n > 100 then [''Name must be 100 characters or less''] else []
      | None \<Rightarrow> []) @
     (case description d of
        Some ds \<Rightarrow> if length ds > 500 then [''Description must be 500 characters or less''] else []
      | None \<Rightarrow> [])"
  by (simp add: validateItemData_def Let_def split: option.splits)

lemma validate_isValid: "fst (validateItemData d) = (snd (validateItemData d) = [])"
  by (simp add: validateItemData_def Let_def)

text \<open>
  Claim C8, as amended. \<open>validateItemData\<close> is a function of its input alone. A name is
  checked only when present: if it is empty after trimming the errors contain "Name is
  required", otherwise if it is longer than 100 characters they contain the name-length
  message (never both). A description is checked only when present: longer than 500
  characters gives the description-length message. The errors are exactly these messages,
  name before description, so a name violation and a description violation accumulate.
  \<open>isValid\<close> holds exactly when the errors list is empty, and the three examples of the
  claim evaluate as it says.
\<close>

theorem validate_rules:
  "fst (validateItemData d) = (snd (validateItemData d) = [])
   \<and> (''Name is required'' \<in> set (snd (validateItemData d)))
       = (\<exists>n. name d = Some n \<and> trim n = [])
   \<and> (''Name must be 100 characters or less'' \<in> set (snd (validateItemData d)))
       = (\<exists>n. name d = Some n \<and> trim n \<noteq> [] \<and> length n > 100)
   \<and> (''Description must be 500 characters or less'' \<in> set (snd (validateItemData d)))
       = (\<exists>ds. description d = Some ds \<and> length ds > 500)
   \<and> snd (validateItemData d)
       = filter (\<lambda>m. m \<in> set (snd (validateItemData d)))
           [''Name is required'', ''Name must be 100 characters or less'',
            ''Description must be 500 characters or less'']
   \<and> validateItemData \<lparr>name = Some '''', description = None\<rparr> = (False, [''Name is required''])
   \<and> validateItemData \<lparr>name = Some ''ok'', description = Some (replicate 501 CHR ''x'')\<rparr>
       = (False, [''Description must be 500 characters or less''])
   \<and> validateItemData \<lparr>name = Some ''ok'', description = Some ''short''\<rparr> = (True, [])"
proof -
  have req: "(''Name is required'' \<in> set (snd (validateItemData d)))
       = (\<exists>n. name d = Some n \<and> trim n = [])"
    unfolding validate_errors by (cases "name d"; cases "description d") auto
  have long: "(''Name must be 100 characters or less'' \<in> set (snd (validateItemData d)))
       = (\<exists>n. name d = Some n \<and> trim n \<noteq> [] \<and> length n > 100)"
    unfolding validate_errors by (cases "name d"; cases "description d") auto
  have desc: "(''Description must be 500 characters or less'' \<in> set (snd (validateItemData d)))
       = (\<exists>ds. description d = Some ds \<and> length ds > 500)"
    unfolding validate_errors by (cases "name d"; cases "description d") auto
  have ord: "snd (validateItemData d)
       = filter (\<lambda>m. m \<in> set (snd (validateItemData d)))
           [''Name is required'', ''Name must be 100 characters or less'',
            ''Description must be 500 characters or less'']"
    unfolding validate_errors by (cases "name d"; cases "description d") auto
  have ex1: "validateItemData \<lparr>name = Some '''', description = None\<rparr> = (False, [''Name is required''])"
    by (simp add: validateItemData_def Let_def trim_empty)
  have ex2: "validateItemData \<lparr>name = Some ''ok'', description = Some (replicate 501 CHR ''x'')\<rparr>
       = (False, [''Description must be 500 characters or less''])"
    by (simp add: validateItemData_def Let_def trim_ok)
  have ex3: "validateItemData \<lparr>name = Some ''ok'', description = Some ''short''\<rparr> = (True, [])"
    by (simp add: validateItemData_def Let_def trim_ok)
  from validate_isValid [of d] req long desc ord ex1 ex2 ex3 show ?thesis by blast
qed

text \<open>
  Claim C8 as stated fails: an input without a name is valid, so a non-empty trimmed name
  is not required of every input; and a name of 101 spaces breaks both name rules but is
  reported with the name-required message only.
\<close>

theorem validate_counterexample:
  "validateItemData \<lparr>name = None, description = None\<rparr> = (True, [])
   \<and> length (replicate 101 CHR '' '') = 101
   \<and> validateItemData \<lparr>name = Some (replicate 101 CHR '' ''), description = None\<rparr>
       = (False, [''Name is required''])"
  by (simp add: validateItemData_def Let_def trim_spaces)

section \<open>Reachability checker: repeated checks\<close>

declare checks_loop.simps [simp del]

lemma check_effect:
  "\<exists>r d. checkCommunityStatus s e =
       (r, s\<lparr>checkCount := checkCount s + 1\<rparr>,
        e\<lparr>reads := reads e + 3, fetches := Suc (fetches e), trace := trace e @ [Fetch targetUrl]\<rparr>)
     \<and> o_data r = Some d \<and> c_status d = status_of (fetch e (fetches e))"
  by (cases "fetch e (fetches e)")
     (simp_all add: checkCommunityStatus_def now_def emit_def succeeded_def Let_def split: prod.splits)

lemma own_step_effect:
  "\<exists>r d. own_step s e =
       (Inr r, s\<lparr>checkCount := checkCount s + 1\<rparr>,
        e\<lparr>reads := reads e + 3, fetches := Suc (fetches e), trace := trace e @ [Fetch targetUrl]\<rparr>)
     \<and> o_data r = Some d \<and> c_status d = status_of (fetch e (fetches e))"
  using check_effect [of s e] by (auto simp: own_step_def)

lemma own_loop:
  "0 \<le> i \<Longrightarrow> nat (n - i) = k \<Longrightarrow>
   \<exists>rs s' e'. checks_loop own_step i n ms acc s e = ((None, acc @ rs), s', e')
      \<and> length rs = k
      \<and> trace e' = trace e @ (if i = 0 then check_schedule k ms else later_checks k ms)
      \<and> checkCount s' = checkCount s + k
      \<and> fetch e' = fetch e \<and> fetches e' = fetches e + k \<and> clock e' = clock e
      \<and> (\<forall>j<k. c_status (rs ! j) = status_of (fetch e (fetches e + j)))"
proof (induction k arbitrary: i acc s e)
  case 0
  then have "\<not> i < n" by simp
  then show ?case by (subst checks_loop.simps) simp
next
  case (Suc k)
  then have lt: "i < n" and k: "nat (n - (i + 1)) = k" and i1: "0 \<le> i + 1" by simp_all
  define e1 where "e1 = (if i > 0 then emit (Sleep ms) e else e)"
  obtain r d where st: "own_step s e1 =
       (Inr r, s\<lparr>checkCount := checkCount s + 1\<rparr>,
        e1\<lparr>reads := reads e1 + 3, fetches := Suc (fetches e1), trace := trace e1 @ [Fetch targetUrl]\<rparr>)"
     and d: "o_data r = Some d" "c_status d = status_of (fetch e1 (fetches e1))"
    using own_step_effect [of s e1] by blast
  define s1 where "s1 = s\<lparr>checkCount := checkCount s + 1\<rparr>"
  define e2 where "e2 = e1\<lparr>reads := reads e1 + 3, fetches := Suc (fetches e1), trace := trace e1 @ [Fetch targetUrl]\<rparr>"
  from Suc.IH [OF i1 k, of "acc @ [d]" s1 e2] obtain rs s' e' where
    ih: "checks_loop own_step (i + 1) n ms (acc @ [d]) s1 e2 = ((None, (acc @ [d]) @ rs), s', e')"
      "length rs = k"
      "trace e' = trace e2 @ (if i + 1 = 0 then check_schedule k ms else later_checks k ms)"
      "checkCount s' = checkCount s1 + k"
      "fetch e' = fetch e2" "fetches e' = fetches e2 + k" "clock e' = clock e2"
      "\<forall>j<k. c_status (rs ! j) = status_of (fetch e2 (fetches e2 + j))"
    by blast
  have unfold: "checks_loop own_step i n ms acc s e = checks_loop own_step (i + 1) n ms (acc @ [d]) s1 e2"
    using lt st d(1)
    by (subst checks_loop.simps) (simp add: e1_def [symmetric] s1_def e2_def Let_def)
  have e1f: "fetch e1 = fetch e" "fetches e1 = fetches e" "clock e1 = clock e"
    by (simp_all add: e1_def emit_def)
  have tr: "trace e2 @ later_checks k ms = trace e @ (if i = 0 then check_schedule (Suc k) ms else later_checks (Suc k) ms)"
    using Suc.prems(1) by (simp add: e2_def e1_def emit_def)
  have sts: "\<forall>j<Suc k. c_status ((d # rs) ! j) = status_of (fetch e (fetches e + j))"
  proof (intro allI impI)
    fix j assume "j < Suc k"
    show "c_status ((d # rs) ! j) = status_of (fetch e (fetches e + j))"
    proof (cases j)
      case 0
      then show ?thesis using d(2) e1f by simp
    next
      case (Suc j')
      with \<open>j < Suc k\<close> have "j' < k" by simp
      with ih(8) have "c_status (rs ! j') = status_of (fetch e2 (fetches e2 + j'))" by simp
      then show ?thesis using Suc e1f by (simp add: e2_def)
    qed
  qed
  from i1 have ne: "i + 1 \<noteq> 0" using Suc.prems(1) by simp
  show ?case
    apply (rule exI [of _ "d # rs"], rule exI [of _ s'], rule exI [of _ e'])
    using unfold ih ne tr sts e1f
    by (simp add: s1_def e2_def)
qed


lemma own_run:
  "\<exists>r rs s' e'. performMultipleChecks n ms s e = (r, s', e')
      \<and> success r \<and> o_error r = None \<and> o_data r = Some rs \<and> length rs = nat n
      \<and> trace e' = trace e @ check_schedule (nat n) ms
      \<and> checkCount s' = checkCount s + nat n
      \<and> (\<forall>j<nat n. c_status (rs ! j) = status_of (fetch e (fetches e + j)))"
proof -
  obtain rs s' e' where
    l: "checks_loop own_step 0 n ms [] s (snd (now e)) = ((None, [] @ rs), s', e')"
      "length rs = nat n"
      "trace e' = trace (snd (now e)) @ (if (0::int) = 0 then check_schedule (nat n) ms else later_checks (nat n) ms)"
      "checkCount s' = checkCount s + nat n"
      "\<forall>j<nat n. c_status (rs ! j) = status_of (fetch (snd (now e)) (fetches (snd (now e)) + j))"
    using own_loop [of 0 n "nat n" ms "[]" s "snd (now e)"] by auto
  then show ?thesis
    by (simp add: performMultipleChecks_def performMultipleChecksWith_def succeeded_def now_def Let_def
        split: prod.splits)
qed

lemma network_failure_offline:
  assumes "err_instance err" and "err_name err \<noteq> ''AbortError''"
  shows "status_of (Rejected err) = Offline"
  using assms by (simp add: classify_failure_def)

lemma raise_keeps:
  assumes "i < n" and "fst (step s (if 0 < i then emit (Sleep ms) e else e)) = Inl err"
  shows "fst (checks_loop step i n ms acc s e) = (Some err, acc)"
proof -
  define e1 where "e1 = (if 0 < i then emit (Sleep ms) e else e)"
  obtain r s1 e2 where st: "step s e1 = (r, s1, e2)" by (cases "step s e1")
  with assms(2) have "r = Inl err" by (simp add: e1_def)
  with st assms(1) show ?thesis
    by (subst checks_loop.simps) (simp add: e1_def [symmetric] Let_def)
qed

lemma raise_reported:
  assumes "fst (checks_loop step 0 n ms [] s (snd (now e))) = (Some err, rs)"
  shows "success (fst (performMultipleChecksWith step n ms s e)) = False
    \<and> o_data (fst (performMultipleChecksWith step n ms s e)) = Some rs
    \<and> o_error (fst (performMultipleChecksWith step n ms s e))
        = Some (if err_instance err then message_of err else ''Multiple checks failed'')"
proof -
  obtain t0 e1 where n: "now e = (t0, e1)" by (cases "now e")
  obtain s' e' where l: "checks_loop step 0 n ms [] s e1 = ((Some err, rs), s', e')"
    using assms n by (cases "checks_loop step 0 n ms [] s e1") auto
  show ?thesis
    using n l by (simp add: performMultipleChecksWith_def Let_def split: prod.splits)
qed

text \<open>
  Claim C5. \<open>performMultipleChecks n ms\<close> with the class's own check returns success with
  exactly \<open>n\<close> results, one per check and in call order, whatever the individual checks
  report; its effects are \<open>n\<close> probes with a wait of \<open>ms\<close> between consecutive probes and
  none before the first. If every probe fails with a non-abort error, every result is
  offline and the online count is 0. If the awaited step raises, the loop stops with the
  results pushed so far, and the method returns them with success false and the raised
  message: the results are not discarded.
\<close>

theorem performMultipleChecks_sequence:
  "(\<exists>r rs s' e'. performMultipleChecks n ms s e = (r, s', e')
      \<and> success r \<and> o_error r = None \<and> o_data r = Some rs \<and> length rs = nat n
      \<and> trace e' = trace e @ check_schedule (nat n) ms
      \<and> checkCount s' = checkCount s + nat n
      \<and> (\<forall>j<nat n. c_status (rs ! j) = status_of (fetch e (fetches e + j)))
      \<and> ((\<forall>j. \<exists>err. fetch e j = Rejected err \<and> err_instance err \<and> err_name err \<noteq> ''AbortError'')
           \<longrightarrow> (\<forall>j<nat n. c_status (rs ! j) = Offline) \<and> onlineCount rs = 0))
 \<and> (i < m \<and> fst (step s (if 0 < i then emit (Sleep ms) e else e)) = Inl err \<longrightarrow>
       fst (checks_loop step i m ms acc s e) = (Some err, acc))
 \<and> (fst (checks_loop step 0 n ms [] s (snd (now e))) = (Some err, partial) \<longrightarrow>
       success (fst (performMultipleChecksWith step n ms s e)) = False
     \<and> o_data (fst (performMultipleChecksWith step n ms s e)) = Some partial
     \<and> o_error (fst (performMultipleChecksWith step n ms s e))
         = Some (if err_instance err then message_of err else ''Multiple checks failed''))"
proof -
  obtain r rs s' e' where run: "performMultipleChecks n ms s e = (r, s', e')"
      "success r" "o_error r = None" "o_data r = Some rs" "length rs = nat n"
      "trace e' = trace e @ check_schedule (nat n) ms"
      "checkCount s' = checkCount s + nat n"
      "\<forall>j<nat n. c_status (rs ! j) = status_of (fetch e (fetches e + j))"
    using own_run [of n ms s e] by blast
  have off: "(\<forall>j<nat n. c_status (rs ! j) = Offline) \<and> onlineCount rs = 0"
    if a: "\<forall>j. \<exists>err. fetch e j = Rejected err \<and> err_instance err \<and> err_name err \<noteq> ''AbortError''"
  proof -
    have st: "status_of (fetch e j) = Offline" for j
      using a network_failure_offline by (metis)
    with run(8) have all: "\<forall>j<nat n. c_status (rs ! j) = Offline" by simp
    with run(5) have "\<forall>x\<in>set rs. c_status x = Offline"
      by (metis in_set_conv_nth)
    then have "filter (\<lambda>r. c_status r = Online) rs = []"
      by (simp add: filter_empty_conv)
    with all show ?thesis by (simp add: onlineCount_def)
  qed
  from run off have first: "\<exists>r rs s' e'. performMultipleChecks n ms s e = (r, s', e')
      \<and> success r \<and> o_error r = None \<and> o_data r = Some rs \<and> length rs = nat n
      \<and> trace e' = trace e @ check_schedule (nat n) ms
      \<and> checkCount s' = checkCount s + nat n
      \<and> (\<forall>j<nat n. c_status (rs ! j) = status_of (fetch e (fetches e + j)))
      \<and> ((\<forall>j. \<exists>err. fetch e j = Rejected err \<and> err_instance err \<and> err_name err \<noteq> ''AbortError'')
           \<longrightarrow> (\<forall>j<nat n. c_status (rs ! j) = Offline) \<and> onlineCount rs = 0)"
    by blast
  from first raise_keeps [of i m step s ms e err acc] raise_reported [of step n ms s e err partial]
  show ?thesis by blast
qed

lemma classify_failed_to_fetch:
  "classify_failure failed_to_fetch = (Offline, ''Network error - site may be down or unreachable'')"
  by (simp add: classify_failure_def failed_to_fetch_def message_of_def includes_str.simps startsWith_def)

lemma flaky_loop:
  "fst (checks_loop flaky_step 0 3 100 [] new_ExternalApiService (snd (now env0)))
     = (Some (new_Error ''history store failed''), [offline_result 1021, offline_result 1042])"
  by (simp add: checks_loop.simps flaky_step_def own_step_def checkCommunityStatus_def
      classify_failed_to_fetch now_def emit_def env0_def env_of_def new_ExternalApiService_def
      targetUrl_def offline_result_def Let_def)

lemma three_alike:
  assumes "length xs = 3" and "\<forall>j<3. f (xs ! j) = v"
  shows "map f xs = [v, v, v]"
proof -
  from assms(1) obtain a b c where xs: "xs = [a, b, c]"
    by (auto simp: numeral_3_eq_3 length_Suc_conv)
  from assms(2) have "f (xs ! 0) = v" "f (xs ! 1) = v" "f (xs ! 2) = v" by simp_all
  with xs show ?thesis by simp
qed

theorem performMultipleChecks_sequence_witness:
  "success (fst (performMultipleChecks 3 100 new_ExternalApiService env0))
   \<and> map_option (map c_status) (o_data (fst (performMultipleChecks 3 100 new_ExternalApiService env0)))
       = Some [Offline, Offline, Offline]
   \<and> map_option onlineCount (o_data (fst (performMultipleChecks 3 100 new_ExternalApiService env0))) = Some 0
   \<and> trace (snd (snd (performMultipleChecks 3 100 new_ExternalApiService env0)))
       = [Fetch ''https://community.braindrive.ai/'', Sleep 100,
          Fetch ''https://community.braindrive.ai/'', Sleep 100,
          Fetch ''https://community.braindrive.ai/'']
   \<and> fst (checks_loop flaky_step 0 3 100 [] new_ExternalApiService (snd (now env0)))
       = (Some (new_Error ''history store failed''), [offline_result 1021, offline_result 1042])
   \<and> success (fst (performMultipleChecksWith flaky_step 3 100 new_ExternalApiService env0)) = False
   \<and> o_data (fst (performMultipleChecksWith flaky_step 3 100 new_ExternalApiService env0))
       = Some [offline_result 1021, offline_result 1042]
   \<and> o_error (fst (performMultipleChecksWith flaky_step 3 100 new_ExternalApiService env0))
       = Some ''history store failed''"
proof -
  note inst = performMultipleChecks_sequence [where n = 3 and ms = 100 and s = new_ExternalApiService
      and e = env0 and step = flaky_step and err = "new_Error ''history store failed''"
      and partial = "[offline_result 1021, offline_result 1042]"]
  have net: "\<forall>j. \<exists>err. fetch env0 j = Rejected err \<and> err_instance err \<and> err_name err \<noteq> ''AbortError''"
    by (simp add: env0_def env_of_def failed_to_fetch_def)
  from inst net obtain r rs s' e' where run:
      "performMultipleChecks 3 100 new_ExternalApiService env0 = (r, s', e')"
      "success r" "o_data r = Some rs" "length rs = nat 3"
      "trace e' = trace env0 @ check_schedule (nat 3) 100"
      "\<forall>j<nat 3. c_status (rs ! j) = Offline" "onlineCount rs = 0"
    by blast
  from run(4) run(6) have sts: "map c_status rs = [Offline, Offline, Offline]"
    by (intro three_alike) simp_all
  have sched: "trace env0 @ check_schedule (nat 3) 100
       = [Fetch ''https://community.braindrive.ai/'', Sleep 100,
          Fetch ''https://community.braindrive.ai/'', Sleep 100,
          Fetch ''https://community.braindrive.ai/'']"
    by (simp add: env0_def env_of_def targetUrl_def numeral_3_eq_3)
  from inst flaky_loop have part:
    "success (fst (performMultipleChecksWith flaky_step 3 100 new_ExternalApiService env0)) = False
     \<and> o_data (fst (performMultipleChecksWith flaky_step 3 100 new_ExternalApiService env0))
       = Some [offline_result 1021, offline_result 1042]
     \<and> o_error (fst (performMultipleChecksWith flaky_step 3 100 new_ExternalApiService env0))
       = Some ''history store failed''"
    by (simp add: new_Error_def message_of_def)
  from run sts sched part flaky_loop show ?thesis by simp
qed

section \<open>Domain operations: create\<close>

lemma trim_blank: "trim ''   '' = []"
  by (simp add: trim_def is_ws_def)

lemma trim_widget: "trim ''widget'' = ''widget''"
  by (simp add: trim_def is_ws_def)


lemma post_req_effect:
  "\<exists>r. post_req p d opts w e =
     (r,
      (if isServiceConnected w then w\<lparr>requestCount := requestCount w + 1\<rparr> else w),
      e\<lparr>reads := (if isServiceConnected w
                     then (case r of Inr x \<Rightarrow> reads e + 3 | Inl x \<Rightarrow> reads e + 2) else reads e),
         trace := trace e @ Request ''POST'' p #
                  (case apiService w of
                     Service t \<Rightarrow> if isConnected w then [Dispatch ''post'' p d] else []
                   | _ \<Rightarrow> [])\<rparr>)"
  by (cases "apiService w")
     (auto simp: post_req_def makeRequest_def isServiceConnected_def now_def emit_def dispatch_def
        invoke_def toUpperCase_verbs Let_def split: sum.splits)

text \<open>
  Claim C7. When the name is absent or empty after trimming, \<open>createItem\<close> returns the
  failure envelope with the local message "Item name is required"; the wrapper is returned
  as it was (request counter included) and the trace is unchanged: the wrapper is not
  entered and no transport method runs. When the trimmed name is non-empty, the wrapper
  is entered exactly once, for a POST to the items path, and at most one transport call
  follows; on a connected wrapper exactly one \<open>post\<close> of the item is dispatched and the
  request counter grows by one.
\<close>

theorem createItem_validation_gate:
  "(name d = None \<or> (\<exists>n. name d = Some n \<and> trim n = []) \<longrightarrow>
      createItem d w e =
        (\<lparr>success = False, o_data = None, o_error = Some ''Item name is required'',
          timing = Some \<lparr>startTime = clock e (reads e), endTime = clock e (Suc (reads e)),
                          duration = clock e (Suc (reads e)) - clock e (reads e)\<rparr>\<rparr>,
         w, e\<lparr>reads := reads e + 2\<rparr>))
 \<and> (name d = Some n \<and> trim n \<noteq> [] \<longrightarrow>
      (\<exists>ds. trace (snd (snd (createItem d w e)))
               = trace e @ Request ''POST'' ''/api/v1/demo/items'' # ds
          \<and> (ds = [] \<or> ds = [Dispatch ''post'' ''/api/v1/demo/items'' (item_json d)])))
 \<and> (name d = Some n \<and> trim n \<noteq> [] \<and> isConnected w \<and> apiService w = Service t \<longrightarrow>
      trace (snd (snd (createItem d w e)))
        = trace e @ [Request ''POST'' ''/api/v1/demo/items'',
                     Dispatch ''post'' ''/api/v1/demo/items'' (item_json d)]
      \<and> requestCount (fst (snd (createItem d w e))) = requestCount w + 1)"
proof (intro conjI impI)
  assume "name d = None \<or> (\<exists>n. name d = Some n \<and> trim n = [])"
  then show "createItem d w e =
        (\<lparr>success = False, o_data = None, o_error = Some ''Item name is required'',
          timing = Some \<lparr>startTime = clock e (reads e), endTime = clock e (Suc (reads e)),
                          duration = clock e (Suc (reads e)) - clock e (reads e)\<rparr>\<rparr>,
         w, e\<lparr>reads := reads e + 2\<rparr>)"
    by (auto simp: createItem_def failure_def now_def new_Error_def message_of_def Let_def)
next
  assume a: "name d = Some n \<and> trim n \<noteq> []"
  obtain r where r: "post_req ''/api/v1/demo/items'' (item_json d) JUndefined w (snd (now e)) =
     (r,
      (if isServiceConnected w then w\<lparr>requestCount := requestCount w + 1\<rparr> else w),
      (snd (now e))\<lparr>reads := (if isServiceConnected w
                     then (case r of Inr x \<Rightarrow> reads (snd (now e)) + 3 | Inl x \<Rightarrow> reads (snd (now e)) + 2) else reads (snd (now e))),
         trace := trace (snd (now e)) @ Request ''POST'' ''/api/v1/demo/items'' #
                  (case apiService w of
                     Service t \<Rightarrow> if isConnected w then [Dispatch ''post'' ''/api/v1/demo/items'' (item_json d)] else []
                   | _ \<Rightarrow> [])\<rparr>)"
    using post_req_effect [of "''/api/v1/demo/items''" "item_json d" JUndefined w "snd (now e)"] by blast
  have tr: "trace (snd (snd (createItem d w e))) = trace e @ Request ''POST'' ''/api/v1/demo/items'' #
                  (case apiService w of
                     Service t \<Rightarrow> if isConnected w then [Dispatch ''post'' ''/api/v1/demo/items'' (item_json d)] else []
                   | _ \<Rightarrow> [])"
    using a r
    by (simp add: createItem_def baseUrl_def failure_def now_def Let_def split: sum.splits prod.splits)
  show "\<exists>ds. trace (snd (snd (createItem d w e)))
               = trace e @ Request ''POST'' ''/api/v1/demo/items'' # ds
          \<and> (ds = [] \<or> ds = [Dispatch ''post'' ''/api/v1/demo/items'' (item_json d)])"
    unfolding tr by (simp split: service.splits)
next
  assume a: "name d = Some n \<and> trim n \<noteq> [] \<and> isConnected w \<and> apiService w = Service t"
  obtain r where r: "post_req ''/api/v1/demo/items'' (item_json d) JUndefined w (snd (now e)) =
     (r,
      (if isServiceConnected w then w\<lparr>requestCount := requestCount w + 1\<rparr> else w),
      (snd (now e))\<lparr>reads := (if isServiceConnected w
                     then (case r of Inr x \<Rightarrow> reads (snd (now e)) + 3 | Inl x \<Rightarrow> reads (snd (now e)) + 2) else reads (snd (now e))),
         trace := trace (snd (now e)) @ Request ''POST'' ''/api/v1/demo/items'' #
                  (case apiService w of
                     Service t \<Rightarrow> if isConnected w then [Dispatch ''post'' ''/api/v1/demo/items'' (item_json d)] else []
                   | _ \<Rightarrow> [])\<rparr>)"
    using post_req_effect [of "''/api/v1/demo/items''" "item_json d" JUndefined w "snd (now e)"] by blast
  from a have c: "isServiceConnected w" by (simp add: isServiceConnected_def)
  have both: "trace (snd (snd (createItem d w e)))
        = trace e @ [Request ''POST'' ''/api/v1/demo/items'',
                     Dispatch ''post'' ''/api/v1/demo/items'' (item_json d)]
      \<and> requestCount (fst (snd (createItem d w e))) = requestCount w + 1"
    using a r c
    by (simp add: createItem_def baseUrl_def failure_def now_def Let_def split: sum.splits prod.splits)
  from both show "trace (snd (snd (createItem d w e)))
        = trace e @ [Request ''POST'' ''/api/v1/demo/items'',
                     Dispatch ''post'' ''/api/v1/demo/items'' (item_json d)]" ..
  from both show "requestCount (fst (snd (createItem d w e))) = requestCount w + 1" ..
qed


theorem createItem_validation_gate_witness:
  "name blank_item = Some ''   '' \<and> trim ''   '' = []
   \<and> createItem blank_item wrapper_echo env0 =
        (\<lparr>success = False, o_data = None, o_error = Some ''Item name is required'',
          timing = Some \<lparr>startTime = 1000, endTime = 1007, duration = 7\<rparr>\<rparr>,
         wrapper_echo, env0\<lparr>reads := 2\<rparr>)
   \<and> trace (env0\<lparr>reads := 2\<rparr>) = []
   \<and> name widget = Some ''widget'' \<and> trim ''widget'' = ''widget''
   \<and> isConnected wrapper_echo \<and> apiService wrapper_echo = Service echo_transport
   \<and> requestCount wrapper_echo = 0
   \<and> trace (snd (snd (createItem widget wrapper_echo env0)))
        = [Request ''POST'' ''/api/v1/demo/items'',
           Dispatch ''post'' ''/api/v1/demo/items''
             (JObj [(''name'', JStr ''widget''), (''description'', JStr ''a small part'')])]
   \<and> requestCount (fst (snd (createItem widget wrapper_echo env0))) = 1"
proof -
  have b: "name blank_item = Some ''   ''" by (simp add: blank_item_def)
  have w: "name widget = Some ''widget''" by (simp add: widget_def)
  have c: "isConnected wrapper_echo" "apiService wrapper_echo = Service echo_transport"
    "requestCount wrapper_echo = 0"
    by (simp_all add: wrapper_echo_def setServiceBridge_def new_ApiServiceWrapper_def)
  have e: "clock env0 (reads env0) = 1000" "clock env0 (Suc (reads env0)) = 1007" "reads env0 = 0"
    "trace env0 = []"
    by (simp_all add: env0_def env_of_def)
  have j: "item_json widget = JObj [(''name'', JStr ''widget''), (''description'', JStr ''a small part'')]"
    by (simp add: item_json_def widget_def)
  have p1: "createItem blank_item wrapper_echo env0 =
        (\<lparr>success = False, o_data = None, o_error = Some ''Item name is required'',
          timing = Some \<lparr>startTime = 1000, endTime = 1007, duration = 7\<rparr>\<rparr>,
         wrapper_echo, env0\<lparr>reads := 2\<rparr>)"
    using createItem_validation_gate [where d = blank_item and w = wrapper_echo and e = env0] b trim_blank e
    by simp
  have p2: "trace (snd (snd (createItem widget wrapper_echo env0)))
        = [Request ''POST'' ''/api/v1/demo/items'',
           Dispatch ''post'' ''/api/v1/demo/items''
             (JObj [(''name'', JStr ''widget''), (''description'', JStr ''a small part'')])]
      \<and> requestCount (fst (snd (createItem widget wrapper_echo env0))) = 1"
    using createItem_validation_gate [where d = widget and w = wrapper_echo and e = env0
        and n = "''widget''" and t = echo_transport] w trim_widget c e j
    by simp
  from b w c e p1 p2 trim_blank trim_widget show ?thesis by simp
qed

section \<open>Domain operations: failures of the wrapper\<close>

lemma failing_request:
  assumes "isConnected w" and "apiService w = Service (failing_transport err)"
    and "toUpperCase m \<in> {''GET'', ''POST'', ''PUT'', ''DELETE''}"
  shows "fst (makeRequest m p d opts w e)
     = Inl (handleApiError err (clock e (Suc (reads e)) - clock e (reads e)))"
  using assms
  by (auto simp: makeRequest_def isServiceConnected_def now_def emit_def dispatch_def invoke_def
      failing_transport_def Let_def)

lemma wrapper_404_conn:
  "isConnected wrapper_404" "apiService wrapper_404 = Service (failing_transport (http_error 404 not_found_body))"
  by (simp_all add: wrapper_404_def setServiceBridge_def)

lemma classified_404:
  "handleApiError (http_error 404 not_found_body) rt
     = \<lparr>message = ''Request failed with status code 404'', status = Some 404,
        code = Some ''NOT_FOUND'',
        details = Some \<lparr>det_responseData = Some (JObj [(''detail'', JStr ''Item not found'')]),
                        det_responseTime = rt\<rparr>\<rparr>"
  by (simp add: handleApiError_def createApiError_def getErrorCode_def http_error_def show_int_404
      not_found_body_def Let_def)

text \<open>
  When the wrapper's request raises its classified error, each operation returns a
  failure envelope; its error string is the operation's fixed fallback text, because the
  classified error is an object literal and \<open>error instanceof Error\<close> is false for it.
\<close>

lemma getItems_wrapper_failure:
  assumes "fst (get_req (baseUrl @ ''/items'') JUndefined w (snd (now e))) = Inl ce"
  shows "success (fst (getItems w e)) = False
    \<and> o_error (fst (getItems w e)) = Some ''Failed to fetch items''"
  using assms
  by (cases "get_req (baseUrl @ ''/items'') JUndefined w (snd (now e))")
     (simp add: getItems_def failure_def now_def Let_def)

lemma createItem_wrapper_failure:
  assumes "name d = Some n" and "trim n \<noteq> []"
    and "fst (post_req (baseUrl @ ''/items'') (item_json d) JUndefined w (snd (now e))) = Inl ce"
  shows "success (fst (createItem d w e)) = False
    \<and> o_error (fst (createItem d w e)) = Some ''Failed to create item''"
  using assms
  by (cases "post_req (baseUrl @ ''/items'') (item_json d) JUndefined w (snd (now e))")
     (simp add: createItem_def failure_def now_def Let_def)

lemma updateItem_wrapper_failure:
  assumes "ident \<noteq> []"
    and "fst (put_req (baseUrl @ ''/items/'' @ ident) (item_json d) JUndefined w (snd (now e))) = Inl ce"
  shows "success (fst (updateItem ident d w e)) = False
    \<and> o_error (fst (updateItem ident d w e)) = Some ''Failed to update item''"
  using assms
  by (cases "put_req (baseUrl @ ''/items/'' @ ident) (item_json d) JUndefined w (snd (now e))")
     (simp add: updateItem_def failure_def now_def Let_def)

lemma deleteItem_wrapper_failure:
  assumes "ident \<noteq> []"
    and "fst (delete_req (baseUrl @ ''/items/'' @ ident) JUndefined w (snd (now e))) = Inl ce"
  shows "success (fst (deleteItem ident w e)) = False
    \<and> o_error (fst (deleteItem ident w e)) = Some ''Failed to delete item''"
  using assms
  by (cases "delete_req (baseUrl @ ''/items/'' @ ident) JUndefined w (snd (now e))")
     (simp add: deleteItem_def failure_def now_def Let_def)

lemma getStatus_wrapper_failure:
  assumes "fst (get_req (baseUrl @ ''/status'') JUndefined w (snd (now e))) = Inl ce"
  shows "success (fst (getStatus w e)) = False
    \<and> o_error (fst (getStatus w e)) = Some ''Failed to get status''"
  using assms
  by (cases "get_req (baseUrl @ ''/status'') JUndefined w (snd (now e))")
     (simp add: getStatus_def failure_def now_def Let_def)

lemma healthCheck_wrapper_failure:
  assumes "fst (get_req (baseUrl @ ''/health'') JUndefined w (snd (now e))) = Inl ce"
  shows "success (fst (healthCheck w e)) = False
    \<and> o_error (fst (healthCheck w e)) = Some ''Health check failed''"
  using assms
  by (cases "get_req (baseUrl @ ''/health'') JUndefined w (snd (now e))")
     (simp add: healthCheck_def failure_def now_def Let_def)

lemma request_404_fails:
  assumes "toUpperCase m \<in> {''GET'', ''POST'', ''PUT'', ''DELETE''}"
  shows "fst (makeRequest m p d opts wrapper_404 e)
     = Inl (handleApiError (http_error 404 not_found_body) (clock e (Suc (reads e)) - clock e (reads e)))"
  using failing_request [OF wrapper_404_conn assms] .

text \<open>
  Claim C2 at a concrete failure. The transport fails every call with HTTP 404; the
  wrapper raises the classified error with message "Request failed with status code 404".
  Each of the six operations returns a failure envelope (nothing is raised past it), and
  its error string is the fallback text of the operation, not that message.
\<close>

theorem classified_message_not_surfaced:
  "fst (makeRequest ''GET'' ''/api/v1/demo/items'' JUndefined JUndefined wrapper_404 env0)
     = Inl \<lparr>message = ''Request failed with status code 404'', status = Some 404,
             code = Some ''NOT_FOUND'',
             details = Some \<lparr>det_responseData = Some (JObj [(''detail'', JStr ''Item not found'')]),
                             det_responseTime = 7\<rparr>\<rparr>
   \<and> success (fst (getItems wrapper_404 env0)) = False
   \<and> o_error (fst (getItems wrapper_404 env0)) = Some ''Failed to fetch items''
   \<and> o_error (fst (createItem widget wrapper_404 env0)) = Some ''Failed to create item''
   \<and> o_error (fst (updateItem ''42'' widget wrapper_404 env0)) = Some ''Failed to update item''
   \<and> o_error (fst (deleteItem ''42'' wrapper_404 env0)) = Some ''Failed to delete item''
   \<and> o_error (fst (getStatus wrapper_404 env0)) = Some ''Failed to get status''
   \<and> o_error (fst (healthCheck wrapper_404 env0)) = Some ''Health check failed''"
proof -
  have m: "fst (makeRequest ''GET'' ''/api/v1/demo/items'' JUndefined JUndefined wrapper_404 env0)
     = Inl \<lparr>message = ''Request failed with status code 404'', status = Some 404,
             code = Some ''NOT_FOUND'',
             details = Some \<lparr>det_responseData = Some (JObj [(''detail'', JStr ''Item not found'')]),
                             det_responseTime = 7\<rparr>\<rparr>"
    using request_404_fails [of "''GET''" "''/api/v1/demo/items''" JUndefined JUndefined env0]
    by (simp add: toUpperCase_verbs classified_404 env0_def env_of_def)
  have w: "name widget = Some ''widget''" by (simp add: widget_def)
  have t: "trim ''widget'' \<noteq> []" by (simp add: trim_widget)
  note g = getItems_wrapper_failure [of wrapper_404 env0, unfolded get_req_def, OF request_404_fails]
  note c = createItem_wrapper_failure [of widget "''widget''" wrapper_404 env0, unfolded post_req_def,
      OF w t request_404_fails]
  note u = updateItem_wrapper_failure [of "''42''" widget wrapper_404 env0, unfolded put_req_def,
      OF _ request_404_fails]
  note d = deleteItem_wrapper_failure [of "''42''" wrapper_404 env0, unfolded delete_req_def,
      OF _ request_404_fails]
  note s = getStatus_wrapper_failure [of wrapper_404 env0, unfolded get_req_def, OF request_404_fails]
  note h = healthCheck_wrapper_failure [of wrapper_404 env0, unfolded get_req_def, OF request_404_fails]
  from m g c u d s h show ?thesis
    by (simp add: toUpperCase_verbs)
qed

end
